theory Spec2Isabelle
  imports Main
begin

section \<open>The session store (src/web/js/stores/sessionStore.js)\<close>

text \<open>
  \<^verbatim>\<open>SessionStore\<close> is the coordinator of a test attempt. Its methods are
  \<^verbatim>\<open>async\<close> and run to completion on the single JavaScript thread apart from the
  points where they await the HTTP client (\<^verbatim>\<open>api\<close>), so each method is a function
  from the store to a result and the new store. What the outside world answers during one
  call (the HTTP replies, the authentication service, the clock) is the record
  \<open>world\<close>: every request of one call is made at most once, so one answer per
  request is enough. The requests made are logged in \<open>apiCalls\<close> and the listener
  notifications in \<open>notified\<close>; both logs are observations of the model, not fields
  of the class.
\<close>

datatype phase = Preparation | Response | Completed

text \<open>The reply of a method of the HTTP client: \<^verbatim>\<open>{success: true, ...}\<close> or
  \<^verbatim>\<open>{success: false, error}\<close>; the client catches every transport error itself.\<close>

datatype 'a api_result = Success 'a | Failure string

record session =
  session_id :: string

record audio =
  audio_id :: "string option"
  transcription :: "string option"
  quality_metrics :: "string option"

record response_data =
  question_id :: "string option"
  response_time :: "nat option"
  recording_duration :: "nat option"

record recording =
  task :: nat
  audioId :: "string option"
  rec_transcription :: "string option"
  duration :: "nat option"
  timestamp :: nat

record test_state =
  ttype :: "string option"
  tmode :: "string option"
  currentTask :: nat
  totalTasks :: nat
  phase :: phase
  isRecording :: bool
  recordings :: "recording list"
  scores :: "string option"
  feedback :: "string option"
  startTime :: "nat option"
  endTime :: "nat option"

datatype api_call =
    ApiCreateSession
  | ApiGetSessions
  | ApiStartTOEFLTask nat
  | ApiStartIELTSPart nat
  | ApiUploadAudio
  | ApiSubmitTOEFLResponse nat
  | ApiSubmitIELTSResponse nat
  | ApiGetTOEFLScore
  | ApiGetIELTSScore

record store =
  currentSession :: "session option"
  sessions :: "session list"
  isLoading :: bool
  error :: "string option"
  websocketConnected :: bool
  testState :: test_state
  apiCalls :: "api_call list"
  notified :: "string list"

record world =
  isLoggedIn :: bool
  storedToken :: "string option"
  now :: nat
  createSessionR :: "(session \<times> bool) api_result"
  getSessionsR :: "session list api_result"
  startTaskR :: "string api_result"
  uploadAudioR :: "audio option api_result"
  submitResponseR :: "string api_result"
  getScoreR :: "string api_result"
  websocketConnects :: bool

datatype payload =
    SessionP session
  | TaskP string
  | SubmitP "audio option" string
  | ScoreP string

type_synonym result = "string + payload"

text \<open>The constructor's \<^verbatim>\<open>testState\<close>, which \<^verbatim>\<open>clearSessions\<close> restores.\<close>

definition initialTestState :: test_state where
  "initialTestState =
     \<lparr>ttype = None, tmode = None, currentTask = 1, totalTasks = 4, phase = Preparation,
      isRecording = False, recordings = [], scores = None, feedback = None,
      startTime = None, endTime = None\<rparr>"

definition initialStore :: store where
  "initialStore =
     \<lparr>currentSession = None, sessions = [], isLoading = False, error = None,
      websocketConnected = False, testState = initialTestState, apiCalls = [], notified = []\<rparr>"

text \<open>\<^verbatim>\<open>notifyListeners(event, data)\<close> calls every session listener inside a
  \<^verbatim>\<open>try\<close>; the store's own state is not touched, so here it only logs the event
  (the dispatch loop itself is modelled in the section on listeners).\<close>

definition notifyListeners :: "string \<Rightarrow> store \<Rightarrow> store" where
  "notifyListeners ev s = s\<lparr>notified := notified s @ [ev]\<rparr>"

definition setLoading :: "bool \<Rightarrow> store \<Rightarrow> store" where
  "setLoading loading s = notifyListeners ''loadingChanged'' (s\<lparr>isLoading := loading\<rparr>)"

definition setError :: "string \<Rightarrow> store \<Rightarrow> store" where
  "setError e s = notifyListeners ''errorChanged'' (s\<lparr>error := Some e\<rparr>)"

definition clearError :: "store \<Rightarrow> store" where
  "clearError s = notifyListeners ''errorChanged'' (s\<lparr>error := None\<rparr>)"

definition request :: "api_call \<Rightarrow> store \<Rightarrow> store" where
  "request c s = s\<lparr>apiCalls := apiCalls s @ [c]\<rparr>"

text \<open>The tail every method shares: \<^verbatim>\<open>catch (error) { setError(error.message); return
  {success: false, error} } finally { setLoading(false) }\<close>.\<close>

definition finish :: "(string + 'a) \<times> store \<Rightarrow> (string + 'a) \<times> store" where
  "finish rs =
     (case rs of
        (Inl e, s) \<Rightarrow> (Inl e, setLoading False (setError e s))
      | (Inr v, s) \<Rightarrow> (Inr v, setLoading False s))"

definition loadUserSessions :: "world \<Rightarrow> store \<Rightarrow> store" where
  "loadUserSessions w s =
     (if \<not> isLoggedIn w then s
      else case getSessionsR w of
             Success ss \<Rightarrow> notifyListeners ''sessionsLoaded'' ((request ApiGetSessions s)\<lparr>sessions := ss\<rparr>)
           | Failure e \<Rightarrow> request ApiGetSessions s)"

text \<open>The \<^verbatim>\<open>connected\<close> listener the store registers on the connection.\<close>

definition onWebsocketConnected :: "store \<Rightarrow> store" where
  "onWebsocketConnected s = notifyListeners ''websocketConnected'' (s\<lparr>websocketConnected := True\<rparr>)"

text \<open>
  \<^verbatim>\<open>createSession(testType, mode = 'full', options)\<close>. A \<open>None\<close> test type is
  JavaScript's \<^verbatim>\<open>null\<close>, on which \<^verbatim>\<open>testType.toUpperCase()\<close> raises a TypeError
  inside the \<^verbatim>\<open>try\<close>. The default of \<^verbatim>\<open>mode\<close> is applied by the caller that omits
  the argument, who passes \<open>Some ''full''\<close>. A failed \<^verbatim>\<open>websocket.connect\<close> is
  caught and the method goes on without the connection.
\<close>

definition createSession :: "string option \<Rightarrow> string option \<Rightarrow> world \<Rightarrow> store \<Rightarrow> (string + session) \<times> store" where
  "createSession testType mode w s0 =
     (let s1 = clearError (setLoading True s0) in
      finish
        (if \<not> isLoggedIn w then (Inl ''Authentication required'', s1)
         else case testType of
           None \<Rightarrow> (Inl ''Cannot read properties of null'', s1)
         | Some tt \<Rightarrow>
             (let s2 = request ApiCreateSession s1 in
              case createSessionR w of
                Failure e \<Rightarrow> (Inl (if e = [] then ''Failed to create session'' else e), s2)
              | Success (sess, has_url) \<Rightarrow>
                  (let s3 = s2\<lparr>currentSession := Some sess,
                                testState := (testState s2)
                                  \<lparr>ttype := Some tt, tmode := mode, currentTask := 1,
                                   totalTasks := (if tt = ''toefl'' then 4 else 3),
                                   phase := Preparation, startTime := Some (now w),
                                   recordings := [], scores := None, feedback := None\<rparr>\<rparr>;
                       s4 = (if has_url \<and> storedToken w \<noteq> None \<and> storedToken w \<noteq> Some []
                                \<and> websocketConnects w
                             then onWebsocketConnected s3 else s3);
                       s5 = notifyListeners ''sessionCreated'' s4;
                       s6 = loadUserSessions w s5
                   in (Inr sess, s6)))))"

text \<open>\<^verbatim>\<open>taskNumber || this.testState.currentTask\<close>: \<^verbatim>\<open>null\<close> and \<^verbatim>\<open>0\<close> are falsy.\<close>

definition taskOr :: "nat option \<Rightarrow> nat \<Rightarrow> nat" where
  "taskOr taskNumber cur = (case taskNumber of None \<Rightarrow> cur | Some n \<Rightarrow> if n = 0 then cur else n)"

text \<open>\<^verbatim>\<open>startTest(testType, mode, taskNumber)\<close>. The conversation start it sends when
  the connection is up goes to the connection and leaves the store as it is.\<close>

definition startTest :: "string option \<Rightarrow> string option \<Rightarrow> nat option \<Rightarrow> world \<Rightarrow> store \<Rightarrow> result \<times> store" where
  "startTest testType mode taskNumber w s0 =
     (let s1 = setLoading True s0 in
      finish
        (case (case currentSession s1 of
                 None \<Rightarrow> createSession testType mode w s1
               | Some sess \<Rightarrow> (Inr sess, s1)) of
           (Inl e, s2) \<Rightarrow> (Inl e, s2)
         | (Inr sess, s2) \<Rightarrow>
             (let n = taskOr taskNumber (currentTask (testState s2));
                  s3 = request (if testType = Some ''toefl'' then ApiStartTOEFLTask n
                                else ApiStartIELTSPart n) s2
              in case startTaskR w of
                   Success t \<Rightarrow>
                     (Inr (TaskP t),
                      notifyListeners ''testStarted''
                        (s3\<lparr>testState := (testState s3)\<lparr>phase := Preparation\<rparr>\<rparr>))
                 | Failure e \<Rightarrow> (Inl e, s3))))"

text \<open>\<^verbatim>\<open>submitResponse(audioFile, responseData)\<close>: the upload is made only when an
  audio file is given (\<^verbatim>\<open>if (audioFile)\<close>); without one \<^verbatim>\<open>audioResult\<close> stays
  \<^verbatim>\<open>null\<close> and the recording's audio fields are undefined.\<close>

definition newRecording :: "audio option \<Rightarrow> response_data \<Rightarrow> world \<Rightarrow> store \<Rightarrow> recording" where
  "newRecording a rd w s =
     \<lparr>task = currentTask (testState s),
      audioId = (case a of None \<Rightarrow> None | Some au \<Rightarrow> audio_id au),
      rec_transcription = (case a of None \<Rightarrow> None | Some au \<Rightarrow> transcription au),
      duration = recording_duration rd,
      timestamp = now w\<rparr>"

definition submitResponse :: "string option \<Rightarrow> response_data \<Rightarrow> world \<Rightarrow> store \<Rightarrow> result \<times> store" where
  "submitResponse audioFile responseData w s0 =
     (let s1 = setLoading True s0 in
      finish
        (case currentSession s1 of
           None \<Rightarrow> (Inl ''No active session'', s1)
         | Some sess \<Rightarrow>
             (case (case audioFile of
                      None \<Rightarrow> (Inr None, s1)
                    | Some f \<Rightarrow>
                        (case uploadAudioR w of
                           Failure e \<Rightarrow> (Inl (''Audio upload failed: '' @ e), request ApiUploadAudio s1)
                         | Success a \<Rightarrow> (Inr a, request ApiUploadAudio s1))) of
                (Inl e, s2) \<Rightarrow> (Inl e, s2)
              | (Inr a, s2) \<Rightarrow>
                  (let n = currentTask (testState s2);
                       s3 = request (if ttype (testState s2) = Some ''toefl''
                                     then ApiSubmitTOEFLResponse n else ApiSubmitIELTSResponse n) s2
                   in case submitResponseR w of
                        Success res \<Rightarrow>
                          (Inr (SubmitP a res),
                           notifyListeners ''responseSubmitted''
                             (s3\<lparr>testState := (testState s3)
                                  \<lparr>recordings := recordings (testState s3) @ [newRecording a responseData w s3]\<rparr>\<rparr>))
                      | Failure e \<Rightarrow> (Inl e, s3)))))"

definition completeTest :: "world \<Rightarrow> store \<Rightarrow> result \<times> store" where
  "completeTest w s0 =
     (let s1 = setLoading True s0 in
      finish
        (case currentSession s1 of
           None \<Rightarrow> (Inl ''No active session'', s1)
         | Some sess \<Rightarrow>
             (let s2 = request (if ttype (testState s1) = Some ''toefl''
                                then ApiGetTOEFLScore else ApiGetIELTSScore) s1
              in case getScoreR w of
                   Success sc \<Rightarrow>
                     (Inr (ScoreP sc),
                      notifyListeners ''testCompleted''
                        (s2\<lparr>testState := (testState s2)
                             \<lparr>scores := Some sc, phase := Completed, endTime := Some (now w)\<rparr>\<rparr>))
                 | Failure e \<Rightarrow> (Inl e, s2))))"

definition nextTask :: "world \<Rightarrow> store \<Rightarrow> result \<times> store" where
  "nextTask w s =
     (if currentTask (testState s) < totalTasks (testState s) then
        (let s1 = s\<lparr>testState := (testState s)
                      \<lparr>currentTask := currentTask (testState s) + 1, phase := Preparation\<rparr>\<rparr>;
             s2 = notifyListeners ''taskChanged'' s1
         in startTest (ttype (testState s2)) (tmode (testState s2))
              (Some (currentTask (testState s2))) w s2)
      else completeTest w s)"

definition clearSessions :: "store \<Rightarrow> store" where
  "clearSessions s =
     notifyListeners ''sessionsCleared''
       (s\<lparr>sessions := [], currentSession := None, testState := initialTestState\<rparr>)"

text \<open>A run of the coordinator within one session: the calls made on the store, each
  with the world's answers during it, and the results they returned.\<close>

datatype op =
    OpStartTest "string option" "string option" "nat option"
  | OpSubmitResponse "string option" response_data
  | OpNextTask
  | OpCompleteTest

fun exec :: "op \<Rightarrow> world \<Rightarrow> store \<Rightarrow> result \<times> store" where
  "exec (OpStartTest tt m n) w s = startTest tt m n w s"
| "exec (OpSubmitResponse f rd) w s = submitResponse f rd w s"
| "exec OpNextTask w s = nextTask w s"
| "exec OpCompleteTest w s = completeTest w s"

fun run :: "(op \<times> world) list \<Rightarrow> store \<Rightarrow> result list \<times> store" where
  "run [] s = ([], s)"
| "run ((c, w) # rest) s =
     (case exec c w s of (r, s') \<Rightarrow> (case run rest s' of (rs, s'') \<Rightarrow> (r # rs, s'')))"

fun isSubmit :: "op \<Rightarrow> bool" where
  "isSubmit (OpSubmitResponse f rd) = True"
| "isSubmit c = False"

fun succeeded :: "result \<Rightarrow> bool" where
  "succeeded (Inr v) = True"
| "succeeded (Inl e) = False"

text \<open>The number of \<^verbatim>\<open>submitResponse\<close> calls of a run that returned success, and the
  number of its \<^verbatim>\<open>nextTask\<close> calls.\<close>

fun submitSuccesses :: "(op \<times> world) list \<Rightarrow> result list \<Rightarrow> nat" where
  "submitSuccesses ((c, w) # cs) (r # rs) =
     (if isSubmit c \<and> succeeded r then 1 else 0) + submitSuccesses cs rs"
| "submitSuccesses cs rs = 0"

definition nextTaskCalls :: "(op \<times> world) list \<Rightarrow> nat" where
  "nextTaskCalls cs = length (filter (\<lambda>(c, w). c = OpNextTask) cs)"

section \<open>Listener dispatch (VoiceAgentWebSocket.emit, SessionStore.notifyListeners)\<close>

text \<open>
  Both classes keep their listeners in arrays and call them with
  \<^verbatim>\<open>listeners.forEach(callback => { try { callback(data) } catch (error) {
  console.error(...) } })\<close>. A callback is a closure; what matters to the dispatch is
  whether it throws and what it does to the array it is called from: the code's own
  \<^verbatim>\<open>authListener\<close> unsubscribes itself with \<^verbatim>\<open>this.off('message', authListener)\<close>
  while \<^verbatim>\<open>emit\<close> is iterating, and the function returned by
  \<^verbatim>\<open>onSessionChange\<close> splices the session listeners the same way. So callbacks are
  identifiers with a table of behaviours: the subscriptions (\<^verbatim>\<open>push\<close>) and
  removals (\<^verbatim>\<open>indexOf\<close> and \<^verbatim>\<open>splice\<close>) the callback makes on this array, in
  order, and whether it then throws. \<open>called\<close> and \<open>caught\<close> log the callbacks
  invoked and the exceptions caught.
\<close>

datatype action = Push nat | Remove nat

record behaviour =
  actions :: "action list"
  throws :: bool

record dispatch =
  listeners :: "nat list"
  called :: "nat list"
  caught :: "nat list"

fun perform :: "action \<Rightarrow> dispatch \<Rightarrow> dispatch" where
  "perform (Push cb) d = d\<lparr>listeners := listeners d @ [cb]\<rparr>"
| "perform (Remove cb) d = d\<lparr>listeners := remove1 cb (listeners d)\<rparr>"

text \<open>One iteration's body: the callback runs inside the \<^verbatim>\<open>try\<close>; an exception is
  logged and goes no further.\<close>

definition invoke :: "(nat \<Rightarrow> behaviour) \<Rightarrow> nat \<Rightarrow> dispatch \<Rightarrow> dispatch" where
  "invoke tbl cb d =
     (let d1 = fold perform (actions (tbl cb)) (d\<lparr>called := called d @ [cb]\<rparr>)
      in if throws (tbl cb) then d1\<lparr>caught := caught d1 @ [cb]\<rparr> else d1)"

text \<open>
  \<^verbatim>\<open>Array.prototype.forEach\<close>: the length is read once, before the first call; the
  index runs from 0 to that length, and at each index the callback is called with the
  element the array holds there at that moment, if the array still has that index.
\<close>

definition forEach :: "(nat \<Rightarrow> behaviour) \<Rightarrow> dispatch \<Rightarrow> dispatch" where
  "forEach tbl d =
     fold (\<lambda>k st. if k < length (listeners st) then invoke tbl (listeners st ! k) st else st)
       [0..<length (listeners d)] d"

text \<open>\<^verbatim>\<open>SessionStore.notifyListeners\<close> iterates \<^verbatim>\<open>this.sessionListeners\<close>.\<close>

definition notifySessionListeners :: "(nat \<Rightarrow> behaviour) \<Rightarrow> dispatch \<Rightarrow> dispatch" where
  "notifySessionListeners tbl d = forEach tbl d"

text \<open>\<^verbatim>\<open>VoiceAgentWebSocket\<close> keeps one array per event name in a \<^verbatim>\<open>Map\<close>;
  \<^verbatim>\<open>on\<close> creates the array on first use and nothing replaces or deletes it.\<close>

record event_system =
  eventListeners :: "string \<Rightarrow> nat list option"
  emitCalled :: "nat list"
  emitCaught :: "nat list"

definition on :: "string \<Rightarrow> nat \<Rightarrow> event_system \<Rightarrow> event_system" where
  "on ev cb s =
     s\<lparr>eventListeners := (eventListeners s)
          (ev \<mapsto> (case eventListeners s ev of None \<Rightarrow> [cb] | Some l \<Rightarrow> l @ [cb]))\<rparr>"

definition off :: "string \<Rightarrow> nat \<Rightarrow> event_system \<Rightarrow> event_system" where
  "off ev cb s =
     (case eventListeners s ev of
        None \<Rightarrow> s
      | Some l \<Rightarrow> s\<lparr>eventListeners := (eventListeners s)(ev \<mapsto> remove1 cb l)\<rparr>)"

definition emit :: "(nat \<Rightarrow> behaviour) \<Rightarrow> string \<Rightarrow> event_system \<Rightarrow> event_system" where
  "emit tbl ev s =
     (case eventListeners s ev of
        None \<Rightarrow> s
      | Some l \<Rightarrow>
          (let d = forEach tbl \<lparr>listeners = l, called = emitCalled s, caught = emitCaught s\<rparr>
           in s\<lparr>eventListeners := (eventListeners s)(ev \<mapsto> listeners d),
                emitCalled := called d, emitCaught := caught d\<rparr>))"

text \<open>Example: the \<^verbatim>\<open>message\<close> listeners during a handshake. Callback 0 behaves as
  \<^verbatim>\<open>authListener\<close> does on an \<^verbatim>\<open>authenticated\<close> message (it removes itself and
  returns); callback 1 is a listener subscribed after it that only observes; callback 2
  throws.\<close>

definition handshakeTable :: "nat \<Rightarrow> behaviour" where
  "handshakeTable cb =
     (if cb = 0 then \<lparr>actions = [Remove 0], throws = False\<rparr>
      else if cb = 2 then \<lparr>actions = [], throws = True\<rparr>
      else \<lparr>actions = [], throws = False\<rparr>)"

definition handshakeListeners :: event_system where
  "handshakeListeners =
     on ''message'' 1 (on ''message'' 0
       \<lparr>eventListeners = (\<lambda>ev. None), emitCalled = [], emitCaught = []\<rparr>)"

section \<open>The connection (class VoiceAgentWebSocket)\<close>

text \<open>
  The class reacts to events: calls of its methods, the events of the browser's
  \<^verbatim>\<open>WebSocket\<close> objects it created (\<^verbatim>\<open>onopen\<close>, \<^verbatim>\<open>onmessage\<close>,
  \<^verbatim>\<open>onclose\<close>, \<^verbatim>\<open>onerror\<close>) and its timers. JavaScript runs each handler to
  completion, so a handler is a function on the state and the connection is the state
  machine \<open>step\<close>. The handlers of a socket are closures over the arguments of the
  \<^verbatim>\<open>connect\<close> call that created it (the token, and the \<^verbatim>\<open>resolve\<close> and
  \<^verbatim>\<open>reject\<close> of its promise), and a socket that \<^verbatim>\<open>this.socket\<close> no longer
  points to keeps its handlers; so the sockets, promises, pending authentications and
  timers are kept in stores (lists indexed by creation order) and \<^verbatim>\<open>this.socket\<close> is
  an index. What the class shows to the outside is logged: the messages given to each
  socket while it is open (\<open>transmitted\<close>), the events emitted to the application's
  listeners (\<open>emitted\<close>) and the console.
\<close>

datatype ready_state = CONNECTING | OPEN | CLOSING | CLOSED

text \<open>The messages the two services build. \<open>AudioChunk\<close> is the message of
  \<^verbatim>\<open>sendAudioChunk\<close> (\<^verbatim>\<open>data: {chunk_id, audio_buffer, timestamp}\<close>);
  \<open>CaptureChunk\<close> is the \<^verbatim>\<open>audio_chunk\<close> message of the capture service
  (\<^verbatim>\<open>data: {audio, timestamp, format}\<close>, which has no \<^verbatim>\<open>chunk_id\<close>). The audio
  is kept as the bytes that the base64 text encodes.\<close>

datatype message =
    Auth string "string option"
  | Ping nat
  | AudioChunk string "nat list" nat
  | CaptureChunk "nat list" nat string
  | Other string

datatype console_entry = Warn string | Err string

record sock =
  authToken :: string
  connectPromise :: nat
  readyState :: ready_state
  transmitted :: "message list"

datatype origin = Caller | Reconnect

datatype settlement = Pending | Resolved | Rejected string

record promise =
  settled :: settlement
  awaitedBy :: origin

record auth =
  forConnect :: nat
  outcome :: settlement

datatype timer_kind = AuthTimer nat | ReconnectTimer string

record timer =
  kind :: timer_kind
  delay :: nat
  pending :: bool

text \<open>An inbound frame: \<open>Malformed\<close> is data on which \<^verbatim>\<open>JSON.parse\<close> or the read
  of \<^verbatim>\<open>data.type\<close> throws; otherwise the fields the class reads.\<close>

record data =
  dtype :: string
  user_id :: "string option"
  dmessage :: string

datatype frame = Malformed | Parsed data

record ws =
  socket :: "nat option"
  sessionId :: "string option"
  userId :: "string option"
  isConnected :: bool
  isAuthenticated :: bool
  reconnectAttempts :: nat
  maxReconnectAttempts :: nat
  reconnectDelay :: nat
  heartbeatInterval :: "nat option"
  messageListeners :: "nat list"
  sockets :: "sock list"
  promises :: "promise list"
  auths :: "auth list"
  timers :: "timer list"
  intervalCount :: nat
  liveIntervals :: "nat list"
  emitted :: "string list"
  console :: "console_entry list"

definition MAX_RECONNECT_ATTEMPTS :: nat where "MAX_RECONNECT_ATTEMPTS = 5"
definition RECONNECT_DELAY :: nat where "RECONNECT_DELAY = 1000"
definition AUTH_TIMEOUT :: nat where "AUTH_TIMEOUT = 10000"
definition HEARTBEAT_INTERVAL :: nat where "HEARTBEAT_INTERVAL = 30000"

text \<open>The constructor.\<close>

definition newConnection :: ws where
  "newConnection =
     \<lparr>socket = None, sessionId = None, userId = None, isConnected = False,
      isAuthenticated = False, reconnectAttempts = 0,
      maxReconnectAttempts = MAX_RECONNECT_ATTEMPTS, reconnectDelay = RECONNECT_DELAY,
      heartbeatInterval = None, messageListeners = [], sockets = [], promises = [],
      auths = [], timers = [], intervalCount = 0, liveIntervals = [], emitted = [],
      console = []\<rparr>"

text \<open>\<^verbatim>\<open>emit(event, data)\<close> for the events whose listeners are the application's
  (they observe the connection): the call is logged. The listeners of \<^verbatim>\<open>message\<close>
  include the class's own \<^verbatim>\<open>authListener\<close>s; see \<open>emitMessage\<close>.\<close>

definition fire :: "string \<Rightarrow> ws \<Rightarrow> ws" where
  "fire ev s = s\<lparr>emitted := emitted s @ [ev]\<rparr>"

definition logc :: "console_entry \<Rightarrow> ws \<Rightarrow> ws" where
  "logc e s = s\<lparr>console := console s @ [e]\<rparr>"

text \<open>The object \<^verbatim>\<open>this.socket\<close> points to; an index outside the store is no
  object.\<close>

definition theSocket :: "ws \<Rightarrow> (nat \<times> sock) option" where
  "theSocket s =
     (case socket s of
        None \<Rightarrow> None
      | Some i \<Rightarrow> if i < length (sockets s) then Some (i, sockets s ! i) else None)"

text \<open>The browser's \<^verbatim>\<open>WebSocket.send\<close>: it throws InvalidStateError while the socket
  is connecting, hands the data to the transport when it is open, and discards it
  silently when it is closing or closed.\<close>

definition socketSend :: "message \<Rightarrow> sock \<Rightarrow> unit + sock" where
  "socketSend m k =
     (case readyState k of
        CONNECTING \<Rightarrow> Inl ()
      | OPEN \<Rightarrow> Inr (k\<lparr>transmitted := transmitted k @ [m]\<rparr>)
      | CLOSING \<Rightarrow> Inr k
      | CLOSED \<Rightarrow> Inr k)"

definition send :: "message \<Rightarrow> ws \<Rightarrow> bool \<times> ws" where
  "send m s =
     (if \<not> isConnected s then
        (False, logc (Warn ''Cannot send message - WebSocket not connected'') s)
      else case theSocket s of
        None \<Rightarrow> (False, logc (Warn ''Cannot send message - WebSocket not connected'') s)
      | Some (i, k) \<Rightarrow>
          (case socketSend m k of
             Inl e \<Rightarrow> (False, logc (Err ''Failed to send WebSocket message'') s)
           | Inr k' \<Rightarrow> (True, s\<lparr>sockets := (sockets s)[i := k']\<rparr>)))"

definition startHeartbeat :: "ws \<Rightarrow> ws" where
  "startHeartbeat s =
     s\<lparr>heartbeatInterval := Some (intervalCount s),
       liveIntervals := liveIntervals s @ [intervalCount s],
       intervalCount := intervalCount s + 1\<rparr>"

definition stopHeartbeat :: "ws \<Rightarrow> ws" where
  "stopHeartbeat s =
     (case heartbeatInterval s of
        None \<Rightarrow> s
      | Some i \<Rightarrow> s\<lparr>liveIntervals := removeAll i (liveIntervals s), heartbeatInterval := None\<rparr>)"

text \<open>
  \<^verbatim>\<open>resolve\<close> and \<^verbatim>\<open>reject\<close> of the promise of a \<^verbatim>\<open>connect\<close> call; a promise
  settles once. A promise awaited by the timer callback of \<^verbatim>\<open>attemptReconnect\<close> has
  that callback's continuation: \<^verbatim>\<open>emit('reconnected')\<close> on success, and on failure
  \<^verbatim>\<open>emit('reconnectionFailed')\<close> if the attempts have reached the maximum. The
  continuation is a microtask; every \<^verbatim>\<open>resolve\<close> and \<^verbatim>\<open>reject\<close> in the class is
  the last statement of its handler, so it runs here, where the promise settles.
\<close>

definition settle :: "nat \<Rightarrow> settlement \<Rightarrow> ws \<Rightarrow> ws" where
  "settle p out s =
     (if p < length (promises s) \<and> settled (promises s ! p) = Pending then
        (let s1 = s\<lparr>promises := (promises s)[p := (promises s ! p)\<lparr>settled := out\<rparr>]\<rparr>
         in case awaitedBy (promises s ! p) of
              Caller \<Rightarrow> s1
            | Reconnect \<Rightarrow>
                (case out of
                   Pending \<Rightarrow> s1
                 | Resolved \<Rightarrow> fire ''reconnected'' s1
                 | Rejected e \<Rightarrow>
                     (let s2 = logc (Err ''Reconnection failed'') s1
                      in if maxReconnectAttempts s2 \<le> reconnectAttempts s2
                         then fire ''reconnectionFailed''
                                (logc (Err ''Max reconnection attempts reached'') s2)
                         else s2)))
      else s)"

text \<open>The promise of \<^verbatim>\<open>authenticate\<close>, with the \<^verbatim>\<open>then\<close> and \<^verbatim>\<open>catch\<close> that
  \<^verbatim>\<open>onopen\<close> attaches to it.\<close>

definition authResolve :: "nat \<Rightarrow> ws \<Rightarrow> ws" where
  "authResolve a s =
     (if a < length (auths s) \<and> outcome (auths s ! a) = Pending then
        settle (forConnect (auths s ! a)) Resolved
          (fire ''connected''
             (startHeartbeat (s\<lparr>auths := (auths s)[a := (auths s ! a)\<lparr>outcome := Resolved\<rparr>]\<rparr>)))
      else s)"

definition authReject :: "nat \<Rightarrow> string \<Rightarrow> ws \<Rightarrow> ws" where
  "authReject a e s =
     (if a < length (auths s) \<and> outcome (auths s ! a) = Pending then
        settle (forConnect (auths s ! a)) (Rejected e)
          (logc (Err ''Authentication failed'')
             (s\<lparr>auths := (auths s)[a := (auths s ! a)\<lparr>outcome := Rejected e\<rparr>]\<rparr>))
      else s)"

text \<open>\<^verbatim>\<open>this.off('message', authListener)\<close>: \<^verbatim>\<open>indexOf\<close> and \<^verbatim>\<open>splice\<close>.\<close>

definition offMessage :: "nat \<Rightarrow> ws \<Rightarrow> ws" where
  "offMessage a s = s\<lparr>messageListeners := remove1 a (messageListeners s)\<rparr>"

definition authListener :: "nat \<Rightarrow> data \<Rightarrow> ws \<Rightarrow> ws" where
  "authListener a d s =
     (if dtype d = ''authenticated'' then
        authResolve a (offMessage a (s\<lparr>isAuthenticated := True, userId := user_id d\<rparr>))
      else if dtype d = ''auth_error'' then
        authReject a (dmessage d)
          (offMessage a (logc (Err ''WebSocket authentication failed'') s))
      else s)"

text \<open>\<^verbatim>\<open>emit('message', data)\<close>: the \<^verbatim>\<open>forEach\<close> over the \<^verbatim>\<open>message\<close>
  listeners, which in this repository are the pending \<^verbatim>\<open>authListener\<close>s (the session
  store subscribes to no \<^verbatim>\<open>message\<close> event). The loop reads the length once and
  then the element at each index of the array as it is at that moment.\<close>

definition emitMessage :: "data \<Rightarrow> ws \<Rightarrow> ws" where
  "emitMessage d s =
     fold (\<lambda>k st. if k < length (messageListeners st)
                   then authListener (messageListeners st ! k) d st else st)
       [0..<length (messageListeners s)] (fire ''message'' s)"

definition handleMessage :: "frame \<Rightarrow> ws \<Rightarrow> ws" where
  "handleMessage fr s =
     (case fr of
        Malformed \<Rightarrow> fire ''parseError'' (logc (Err ''Failed to parse WebSocket message'') s)
      | Parsed d \<Rightarrow>
          if dtype d = ''pong'' then fire ''heartbeat'' s
          else if dtype d = ''error'' then fire ''error'' (logc (Err ''WebSocket server error'') s)
          else if dtype d = ''session_updated'' then fire ''sessionUpdated'' s
          else if dtype d = ''audio_processed'' then fire ''audioProcessed'' s
          else if dtype d = ''transcription'' then fire ''transcription'' s
          else if dtype d = ''ai_response'' then fire ''aiResponse'' s
          else if dtype d = ''real_time_feedback'' then fire ''realTimeFeedback'' s
          else emitMessage d s)"

text \<open>\<^verbatim>\<open>authenticate(authToken)\<close>, called by \<^verbatim>\<open>onopen\<close>; \<open>p\<close> is the promise of
  the \<^verbatim>\<open>connect\<close> call, which the attached \<^verbatim>\<open>then\<close> and \<^verbatim>\<open>catch\<close> settle.\<close>

definition authenticate :: "string \<Rightarrow> nat \<Rightarrow> ws \<Rightarrow> ws" where
  "authenticate tok p s =
     (let a = length (auths s);
          s0 = s\<lparr>auths := auths s @ [\<lparr>forConnect = p, outcome = Pending\<rparr>]\<rparr>
      in if \<not> isConnected s0 then authReject a ''WebSocket not connected'' s0
         else
           (let s1 = s0\<lparr>messageListeners := messageListeners s0 @ [a]\<rparr>;
                s2 = snd (send (Auth tok (sessionId s1)) s1)
            in s2\<lparr>timers := timers s2 @ [\<lparr>kind = AuthTimer a, delay = AUTH_TIMEOUT, pending = True\<rparr>]\<rparr>))"

text \<open>\<^verbatim>\<open>connect(sessionId, authToken)\<close>; \<open>ctorThrows\<close> says whether
  \<^verbatim>\<open>new WebSocket(url)\<close> throws, \<open>org\<close> who awaits the promise. The promise
  returned is the one at index \<open>length (promises s)\<close>.\<close>

definition connect :: "string option \<Rightarrow> string \<Rightarrow> bool \<Rightarrow> origin \<Rightarrow> ws \<Rightarrow> ws" where
  "connect sid tok ctorThrows org s =
     (let p = length (promises s);
          s1 = s\<lparr>promises := promises s @ [\<lparr>settled = Pending, awaitedBy = org\<rparr>],
                 sessionId := sid\<rparr>
      in if ctorThrows then
           settle p (Rejected ''WebSocket connection failed'')
             (logc (Err ''WebSocket connection failed'') s1)
         else
           s1\<lparr>sockets := sockets s1 @
                  [\<lparr>authToken = tok, connectPromise = p, readyState = CONNECTING, transmitted = []\<rparr>],
              socket := Some (length (sockets s1))\<rparr>)"

definition attemptReconnect :: "string \<Rightarrow> ws \<Rightarrow> ws" where
  "attemptReconnect tok s =
     (let s1 = s\<lparr>reconnectAttempts := reconnectAttempts s + 1\<rparr>;
          d = reconnectDelay s1 * 2 ^ (reconnectAttempts s1 - 1)
      in s1\<lparr>timers := timers s1 @ [\<lparr>kind = ReconnectTimer tok, delay = d, pending = True\<rparr>]\<rparr>)"

text \<open>The handlers \<^verbatim>\<open>connect\<close> installs on socket \<open>i\<close>. The browser moves the
  socket to OPEN before \<^verbatim>\<open>onopen\<close> and to CLOSED before \<^verbatim>\<open>onclose\<close>.\<close>

definition onopen :: "nat \<Rightarrow> ws \<Rightarrow> ws" where
  "onopen i s =
     (let k = sockets s ! i;
          s1 = s\<lparr>sockets := (sockets s)[i := k\<lparr>readyState := OPEN\<rparr>],
                 isConnected := True, reconnectAttempts := 0\<rparr>
      in authenticate (authToken k) (connectPromise k) s1)"

definition onclose :: "nat \<Rightarrow> bool \<Rightarrow> ws \<Rightarrow> ws" where
  "onclose i wasClean s =
     (let k = sockets s ! i;
          s1 = logc (Warn ''WebSocket disconnected'')
                 (s\<lparr>sockets := (sockets s)[i := k\<lparr>readyState := CLOSED\<rparr>]\<rparr>);
          s2 = stopHeartbeat (s1\<lparr>isConnected := False, isAuthenticated := False\<rparr>);
          s3 = fire ''disconnected'' s2
      in if \<not> wasClean \<and> reconnectAttempts s3 < maxReconnectAttempts s3
         then attemptReconnect (authToken k) s3 else s3)"

definition onerror :: "nat \<Rightarrow> ws \<Rightarrow> ws" where
  "onerror i s =
     settle (connectPromise (sockets s ! i)) (Rejected ''WebSocket error'')
       (fire ''error'' (logc (Err ''WebSocket error'') s))"

text \<open>The callbacks of the two \<^verbatim>\<open>setTimeout\<close> calls. A timer fires once.\<close>

definition timerFires :: "nat \<Rightarrow> bool \<Rightarrow> ws \<Rightarrow> ws" where
  "timerFires t ctorThrows s =
     (if t < length (timers s) \<and> pending (timers s ! t) then
        (let s1 = s\<lparr>timers := (timers s)[t := (timers s ! t)\<lparr>pending := False\<rparr>]\<rparr>
         in case kind (timers s ! t) of
              AuthTimer a \<Rightarrow>
                if \<not> isAuthenticated s1
                then authReject a ''Authentication timeout'' (offMessage a s1) else s1
            | ReconnectTimer tok \<Rightarrow> connect (sessionId s1) tok ctorThrows Reconnect s1)
      else s)"

definition disconnect :: "ws \<Rightarrow> ws" where
  "disconnect s =
     (let s1 = stopHeartbeat s;
          s2 = (case theSocket s1 of
                  None \<Rightarrow> s1
                | Some (i, k) \<Rightarrow>
                    if readyState k = OPEN
                    then s1\<lparr>sockets := (sockets s1)[i := k\<lparr>readyState := CLOSING\<rparr>]\<rparr> else s1)
      in s2\<lparr>isConnected := False, isAuthenticated := False, sessionId := None,
            userId := None, socket := None\<rparr>)"

definition heartbeatTick :: "nat \<Rightarrow> nat \<Rightarrow> ws \<Rightarrow> ws" where
  "heartbeatTick i t s =
     (if i \<in> set (liveIntervals s) \<and> isConnected s then snd (send (Ping t) s) else s)"

text \<open>Decimal digits of a number, for \<^verbatim>\<open>`chunk_${Date.now()}`\<close>.\<close>

fun showNat :: "nat \<Rightarrow> string" where
  "showNat n =
     (if n < 10 then [char_of (48 + n)] else showNat (n div 10) @ [char_of (48 + n mod 10)])"

text \<open>\<^verbatim>\<open>sendAudioChunk(audioData, chunkId = null)\<close>; \<^verbatim>\<open>chunkId || ...\<close> takes the
  default for \<^verbatim>\<open>null\<close> and for the empty string. The result of \<^verbatim>\<open>send\<close> is
  ignored.\<close>

definition chunkIdOr :: "string option \<Rightarrow> nat \<Rightarrow> string" where
  "chunkIdOr chunkId t =
     (case chunkId of
        None \<Rightarrow> ''chunk_'' @ showNat t
      | Some c \<Rightarrow> if c = [] then ''chunk_'' @ showNat t else c)"

definition sendAudioChunk :: "nat list \<Rightarrow> string option \<Rightarrow> nat \<Rightarrow> ws \<Rightarrow> bool \<times> ws" where
  "sendAudioChunk audioData chunkId t s =
     (if \<not> isAuthenticated s then
        (False, logc (Warn ''Cannot send audio chunk - not authenticated'') s)
      else (True, snd (send (AudioChunk (chunkIdOr chunkId t) audioData t) s)))"

text \<open>The events of the state machine. A socket event happens only in the ready state
  the browser allows it in; a method call can happen at any time.\<close>

datatype event =
    Open nat
  | Message nat frame
  | Close nat bool
  | SocketError nat
  | TimerFires nat bool
  | Tick nat nat
  | Connect "string option" string bool
  | Disconnect
  | Send message
  | SendAudioChunk "nat list" "string option" nat

fun step :: "event \<Rightarrow> ws \<Rightarrow> ws" where
  "step (Open i) s =
     (if i < length (sockets s) \<and> readyState (sockets s ! i) = CONNECTING then onopen i s else s)"
| "step (Message i fr) s =
     (if i < length (sockets s) \<and> readyState (sockets s ! i) = OPEN then handleMessage fr s else s)"
| "step (Close i wasClean) s =
     (if i < length (sockets s) \<and> readyState (sockets s ! i) \<noteq> CLOSED then onclose i wasClean s else s)"
| "step (SocketError i) s =
     (if i < length (sockets s) \<and> readyState (sockets s ! i) \<noteq> CLOSED then onerror i s else s)"
| "step (TimerFires t ctorThrows) s = timerFires t ctorThrows s"
| "step (Tick i t) s = heartbeatTick i t s"
| "step (Connect sid tok ctorThrows) s = connect sid tok ctorThrows Caller s"
| "step Disconnect s = disconnect s"
| "step (Send m) s = snd (send m s)"
| "step (SendAudioChunk a c t) s = snd (sendAudioChunk a c t s)"

definition steps :: "event list \<Rightarrow> ws \<Rightarrow> ws" where
  "steps es s = fold step es s"

text \<open>A frame that is not a reply to the handshake: anything but a parsed
  \<^verbatim>\<open>authenticated\<close> or \<^verbatim>\<open>auth_error\<close> message.\<close>

definition noReply :: "frame \<Rightarrow> bool" where
  "noReply fr =
     (case fr of
        Malformed \<Rightarrow> True
      | Parsed d \<Rightarrow> dtype d \<noteq> ''authenticated'' \<and> dtype d \<noteq> ''auth_error'')"

text \<open>Example data: a TOEFL session created from the constructor's state in a world where
  every request succeeds.\<close>

definition toeflWorld :: world where
  "toeflWorld =
     \<lparr>isLoggedIn = True, storedToken = Some ''token'', now = 1000,
      createSessionR = Success (\<lparr>session_id = ''s1''\<rparr>, True),
      getSessionsR = Success [],
      startTaskR = Success ''task'',
      uploadAudioR = Success (Some \<lparr>audio_id = Some ''a1'', transcription = Some ''hello'', quality_metrics = None\<rparr>),
      submitResponseR = Success ''accepted'',
      getScoreR = Success ''score'',
      websocketConnects = True\<rparr>"

definition toeflStore :: store where
  "toeflStore = snd (createSession (Some ''toefl'') (Some ''practice'') toeflWorld initialStore)"

definition noData :: response_data where
  "noData = \<lparr>question_id = None, response_time = None, recording_duration = None\<rparr>"

text \<open>The same session in the Response phase (the field is public; the store itself
  never sets it to \<^verbatim>\<open>response\<close>).\<close>

definition responseStore :: store where
  "responseStore = toeflStore\<lparr>testState := (testState toeflStore)\<lparr>phase := Response\<rparr>\<rparr>"

text \<open>Example data for the connection: the replies of the backend to the handshake, a
  heartbeat reply, and a connection whose transport has opened and whose handshake is
  still waiting for its reply.\<close>

definition authenticatedReply :: frame where
  "authenticatedReply = Parsed \<lparr>dtype = ''authenticated'', user_id = Some ''u1'', dmessage = []\<rparr>"

definition authErrorReply :: frame where
  "authErrorReply = Parsed \<lparr>dtype = ''auth_error'', user_id = None, dmessage = ''bad token''\<rparr>"

definition pongReply :: frame where
  "pongReply = Parsed \<lparr>dtype = ''pong'', user_id = None, dmessage = []\<rparr>"

definition openedConnection :: ws where
  "openedConnection = steps [Connect (Some ''s1'') ''token'' False, Open 0] newConnection"

text \<open>
  One reconnection attempt in which the transport does not open: the reconnection timer
  scheduled last fires, \<^verbatim>\<open>connect\<close> creates the next socket, and the browser reports
  the failure on it as an \<^verbatim>\<open>error\<close> event followed by an unclean \<^verbatim>\<open>close\<close>.
\<close>

definition failedAttempt :: "ws \<Rightarrow> ws" where
  "failedAttempt s =
     step (Close (length (sockets s)) False)
       (step (SocketError (length (sockets s)))
          (step (TimerFires (length (timers s) - 1) False) s))"

fun failedAttempts :: "nat \<Rightarrow> ws \<Rightarrow> ws" where
  "failedAttempts 0 s = s"
| "failedAttempts (Suc n) s = failedAttempt (failedAttempts n s)"

text \<open>
  One reconnection attempt in which the transport opens and the handshake fails: the
  timer fires, the new socket opens and sends \<^verbatim>\<open>auth\<close>, the backend answers
  \<^verbatim>\<open>auth_error\<close>, and the socket closes uncleanly.
\<close>

definition rejectedAttempt :: "ws \<Rightarrow> ws" where
  "rejectedAttempt s =
     step (Close (length (sockets s)) False)
       (step (Message (length (sockets s)) authErrorReply)
          (step (Open (length (sockets s)))
             (step (TimerFires (length (timers s) - 1) False) s)))"

fun rejectedAttempts :: "nat \<Rightarrow> ws \<Rightarrow> ws" where
  "rejectedAttempts 0 s = s"
| "rejectedAttempts (Suc n) s = rejectedAttempt (rejectedAttempts n s)"

text \<open>A connection that was authenticated and whose socket then closed uncleanly.\<close>

definition droppedConnection :: ws where
  "droppedConnection =
     steps [Connect (Some ''s1'') ''token'' False, Open 0, Message 0 authenticatedReply,
            Close 0 False] newConnection"

definition authenticatedConnection :: ws where
  "authenticatedConnection =
     steps [Connect (Some ''s1'') ''token'' False, Open 0, Message 0 authenticatedReply] newConnection"

text \<open>The reconnection timers among the timers set so far, in the order they were
  scheduled.\<close>

definition reconnectTimers :: "ws \<Rightarrow> timer list" where
  "reconnectTimers s =
     filter (\<lambda>t. case kind t of ReconnectTimer tok \<Rightarrow> True | AuthTimer a \<Rightarrow> False) (timers s)"

text \<open>What is observed of the reconnection: the delays of the reconnection timers, which
  of them are still pending, the outcome of every \<^verbatim>\<open>connect\<close> call, the counter, and
  how many times \<^verbatim>\<open>reconnectionFailed\<close> was emitted.\<close>

definition reconnectionSummary :: "ws \<Rightarrow> nat list \<times> bool list \<times> settlement list \<times> nat \<times> nat" where
  "reconnectionSummary s =
     (map delay (reconnectTimers s), map pending (reconnectTimers s), map settled (promises s),
      reconnectAttempts s, count_list (emitted s) ''reconnectionFailed'')"

section \<open>Properties of the session store\<close>

lemmas store_defs =
  notifyListeners_def setLoading_def setError_def clearError_def request_def finish_def

lemma toeflStore_literal:
  "toeflStore =
     \<lparr>currentSession = Some \<lparr>session_id = ''s1''\<rparr>, sessions = [], isLoading = False,
      error = None, websocketConnected = True,
      testState = \<lparr>ttype = Some ''toefl'', tmode = Some ''practice'', currentTask = 1,
        totalTasks = 4, phase = Preparation, isRecording = False, recordings = [],
        scores = None, feedback = None, startTime = Some 1000, endTime = None\<rparr>,
      apiCalls = [ApiCreateSession, ApiGetSessions],
      notified = [''loadingChanged'', ''errorChanged'', ''websocketConnected'',
        ''sessionCreated'', ''sessionsLoaded'', ''loadingChanged'']\<rparr>"
  by (simp add: toeflStore_def createSession_def store_defs Let_def loadUserSessions_def
      onWebsocketConnected_def toeflWorld_def initialStore_def initialTestState_def)

lemma toeflStore_eq:
  "createSession (Some ''toefl'') (Some ''practice'') toeflWorld initialStore =
     (Inr \<lparr>session_id = ''s1''\<rparr>, toeflStore)"
  by (simp add: toeflStore_def createSession_def store_defs Let_def loadUserSessions_def
      onWebsocketConnected_def toeflWorld_def initialStore_def)

subsection \<open>What one call changes\<close>

lemma submit_fail:
  "submitResponse f rd w s = (Inl e, s') \<Longrightarrow>
     phase (testState s') = phase (testState s) \<and> recordings (testState s') = recordings (testState s)
     \<and> currentTask (testState s') = currentTask (testState s) \<and> error s' = Some e"
  by (auto simp: submitResponse_def store_defs Let_def split: option.splits api_result.splits)

lemma complete_fail:
  "completeTest w s = (Inl e, s') \<Longrightarrow>
     phase (testState s') = phase (testState s) \<and> recordings (testState s') = recordings (testState s)
     \<and> currentTask (testState s') = currentTask (testState s) \<and> error s' = Some e"
  by (auto simp: completeTest_def store_defs Let_def split: option.splits api_result.splits)

lemma createSession_result:
  "(case createSession tt m w s0 of
      (Inl e, s) \<Rightarrow> True
    | (Inr sess, s) \<Rightarrow>
        currentSession s = Some sess \<and> recordings (testState s) = [] \<and> currentTask (testState s) = 1
        \<and> totalTasks (testState s) = (if tt = Some ''toefl'' then 4 else 3)
        \<and> phase (testState s) = Preparation \<and> ttype (testState s) = tt \<and> tmode (testState s) = m)"
  by (simp add: createSession_def store_defs Let_def loadUserSessions_def onWebsocketConnected_def
      split: option.split api_result.split prod.split)

lemma createSession_success:
  "createSession tt m w s0 = (Inr sess, s) \<Longrightarrow>
     currentSession s = Some sess \<and> recordings (testState s) = [] \<and> currentTask (testState s) = 1
     \<and> totalTasks (testState s) = (if tt = Some ''toefl'' then 4 else 3)
     \<and> phase (testState s) = Preparation \<and> ttype (testState s) = tt \<and> tmode (testState s) = m"
  using createSession_result [of tt m w s0] by simp

lemma startTest_session:
  "currentSession s = Some sess \<Longrightarrow> startTest tt m n w s = (r, s') \<Longrightarrow>
     currentSession s' = Some sess \<and> totalTasks (testState s') = totalTasks (testState s)
     \<and> recordings (testState s') = recordings (testState s)
     \<and> currentTask (testState s') = currentTask (testState s)"
  by (auto simp: startTest_def store_defs Let_def split: api_result.splits)

lemma submitResponse_session:
  "currentSession s = Some sess \<Longrightarrow> submitResponse f rd w s = (r, s') \<Longrightarrow>
     currentSession s' = Some sess \<and> totalTasks (testState s') = totalTasks (testState s)
     \<and> length (recordings (testState s')) =
          length (recordings (testState s)) + (if succeeded r then 1 else 0)
     \<and> currentTask (testState s') = currentTask (testState s)"
  by (auto simp: submitResponse_def store_defs Let_def split: option.splits api_result.splits)

lemma completeTest_session:
  "currentSession s = Some sess \<Longrightarrow> completeTest w s = (r, s') \<Longrightarrow>
     currentSession s' = Some sess \<and> totalTasks (testState s') = totalTasks (testState s)
     \<and> recordings (testState s') = recordings (testState s)
     \<and> currentTask (testState s') = currentTask (testState s)"
  by (auto simp: completeTest_def store_defs Let_def split: api_result.splits)

lemma nextTask_session:
  assumes a: "currentSession s = Some sess" "nextTask w s = (r, s')"
  shows "currentSession s' = Some sess \<and> totalTasks (testState s') = totalTasks (testState s)
     \<and> recordings (testState s') = recordings (testState s)
     \<and> currentTask (testState s') =
         (if currentTask (testState s) < totalTasks (testState s) then currentTask (testState s) + 1
          else currentTask (testState s))"
proof (cases "currentTask (testState s) < totalTasks (testState s)")
  case True
  let ?s2 = "notifyListeners ''taskChanged''
               (s\<lparr>testState := (testState s)
                   \<lparr>currentTask := currentTask (testState s) + 1, phase := Preparation\<rparr>\<rparr>)"
  have c: "currentSession ?s2 = Some sess"
    using a by (simp add: notifyListeners_def)
  from a True
  have "startTest (ttype (testState ?s2)) (tmode (testState ?s2))
          (Some (currentTask (testState ?s2))) w ?s2 = (r, s')"
    by (simp add: nextTask_def Let_def)
  from startTest_session [OF c this] True show ?thesis
    by (simp add: notifyListeners_def)
next
  case False
  from a False have "completeTest w s = (r, s')"
    by (simp add: nextTask_def)
  from completeTest_session [OF a(1) this] False show ?thesis
    by simp
qed

lemma exec_session:
  assumes "currentSession s = Some sess" "exec c w s = (r, s')"
  shows "currentSession s' = Some sess \<and> totalTasks (testState s') = totalTasks (testState s)
     \<and> length (recordings (testState s')) =
          length (recordings (testState s)) + (if isSubmit c \<and> succeeded r then 1 else 0)
     \<and> currentTask (testState s') =
         (if c = OpNextTask \<and> currentTask (testState s) < totalTasks (testState s)
          then currentTask (testState s) + 1 else currentTask (testState s))"
proof (cases c)
  case (OpStartTest tt m n)
  with assms startTest_session [of s sess tt m n w r s'] show ?thesis by simp
next
  case (OpSubmitResponse f rd)
  with assms submitResponse_session [of s sess f rd w r s'] show ?thesis by simp
next
  case OpNextTask
  with assms nextTask_session [of s sess w r s'] show ?thesis by simp
next
  case OpCompleteTest
  with assms completeTest_session [of s sess w r s'] show ?thesis by simp
qed

subsection \<open>What a run changes\<close>

lemma run_session:
  "currentSession s = Some sess \<Longrightarrow> run cs s = (rs, s') \<Longrightarrow>
     currentSession s' = Some sess \<and> totalTasks (testState s') = totalTasks (testState s)
     \<and> length (recordings (testState s')) = length (recordings (testState s)) + submitSuccesses cs rs
     \<and> (currentTask (testState s) \<le> totalTasks (testState s) \<longrightarrow>
          currentTask (testState s') \<le> totalTasks (testState s))
     \<and> (currentTask (testState s) + nextTaskCalls cs \<le> totalTasks (testState s) \<longrightarrow>
          currentTask (testState s') = currentTask (testState s) + nextTaskCalls cs)"
proof (induction cs arbitrary: s rs s')
  case Nil
  then show ?case by (simp add: nextTaskCalls_def)
next
  case (Cons cw cs)
  obtain c w where cw: "cw = (c, w)" by (cases cw)
  obtain r s1 where e: "exec c w s = (r, s1)" by (cases "exec c w s")
  obtain rs1 s2 where r1: "run cs s1 = (rs1, s2)" by (cases "run cs s1")
  from Cons.prems cw e r1 have eq: "rs = r # rs1" "s' = s2" by auto
  note st = exec_session [OF Cons.prems(1) e]
  from st have c1: "currentSession s1 = Some sess" by simp
  note ih = Cons.IH [OF c1 r1]
  show ?case using st ih eq cw
    by (auto simp: nextTaskCalls_def)
qed

lemma submit_appends:
  "length (recordings (testState (snd (submitResponse f rd w s)))) =
     length (recordings (testState s)) + (if succeeded (fst (submitResponse f rd w s)) then 1 else 0)"
  by (auto simp: submitResponse_def store_defs Let_def split: option.splits api_result.splits)

lemma submit_succeeds_iff:
  "succeeded (fst (submitResponse f rd w s)) =
     (currentSession s \<noteq> None \<and> (f = None \<or> (\<exists>a. uploadAudioR w = Success a))
      \<and> (\<exists>res. submitResponseR w = Success res))"
  by (auto simp: submitResponse_def store_defs Let_def split: option.splits api_result.splits)

lemma createSession_phase:
  "phase (testState s) = Preparation \<Longrightarrow>
     phase (testState (snd (createSession tt m w s))) = Preparation"
  by (simp add: createSession_def store_defs Let_def loadUserSessions_def
      onWebsocketConnected_def split: option.split api_result.split prod.split)

lemma startTest_phase:
  assumes p: "phase (testState s) = Preparation"
  shows "phase (testState (snd (startTest tt m n w s))) = Preparation"
proof (cases "currentSession s")
  case None
  obtain r s2 where c: "createSession tt m w (setLoading True s) = (r, s2)"
    by (cases "createSession tt m w (setLoading True s)")
  have "phase (testState (snd (createSession tt m w (setLoading True s)))) = Preparation"
    using p by (intro createSession_phase) (simp add: store_defs)
  with c have "phase (testState s2) = Preparation" by simp
  with None c show ?thesis
    by (cases r) (simp_all add: startTest_def store_defs Let_def split: api_result.split)
next
  case (Some sess)
  with p show ?thesis
    by (simp add: startTest_def store_defs Let_def split: api_result.split)
qed

lemma nextTask_phase:
  "currentTask (testState s) < totalTasks (testState s) \<Longrightarrow>
     phase (testState (snd (nextTask w s))) = Preparation"
  by (simp add: nextTask_def Let_def startTest_phase notifyListeners_def)

lemma completeTest_phase:
  "(phase (testState (snd (completeTest w s))) = Completed) =
     (phase (testState s) = Completed \<or>
      (currentSession s \<noteq> None \<and> (\<exists>sc. getScoreR w = Success sc)))"
  by (auto simp: completeTest_def store_defs Let_def split: option.splits api_result.splits)

subsection \<open>Recordings and the task index count the calls\<close>

text \<open>
  Claim C1, as the code has it. In every run of the coordinator that starts with a
  successful \<^verbatim>\<open>createSession\<close>, the number of recordings is the number of
  \<^verbatim>\<open>submitResponse\<close> calls that returned success, and after \<open>k\<close> calls of
  \<^verbatim>\<open>nextTask\<close> with \<open>k < totalTasks\<close> the current task is \<open>1 + k\<close>. A
  \<^verbatim>\<open>submitResponse\<close> call appends one recording when it returns success and none
  otherwise, and it returns success exactly when a session exists, the task submission
  succeeded and the audio upload succeeded if an audio file was given: without an audio
  file no upload is made.
\<close>

theorem recordings_and_task_index_count_calls:
  assumes "createSession tt m w0 s0 = (Inr sess, s)" and "run cs s = (rs, s')"
  shows "length (recordings (testState s')) = submitSuccesses cs rs
     \<and> (nextTaskCalls cs < totalTasks (testState s) \<longrightarrow>
          currentTask (testState s') = 1 + nextTaskCalls cs)
     \<and> (\<forall>f rd w t.
           succeeded (fst (submitResponse f rd w t)) =
             (currentSession t \<noteq> None \<and> (f = None \<or> (\<exists>a. uploadAudioR w = Success a))
              \<and> (\<exists>res. submitResponseR w = Success res))
         \<and> length (recordings (testState (snd (submitResponse f rd w t)))) =
             length (recordings (testState t))
               + (if succeeded (fst (submitResponse f rd w t)) then 1 else 0))"
proof -
  note c = createSession_success [OF assms(1)]
  from c have cs: "currentSession s = Some sess" by simp
  note r = run_session [OF cs assms(2)]
  have 1: "length (recordings (testState s')) = submitSuccesses cs rs"
    using r c by simp
  have 2: "nextTaskCalls cs < totalTasks (testState s) \<longrightarrow>
             currentTask (testState s') = 1 + nextTaskCalls cs"
    using r c by auto
  show ?thesis
    using 1 2 submit_appends submit_succeeds_iff by blast
qed

theorem recordings_and_task_index_witness:
  "length (recordings (testState (snd (run
      [(OpSubmitResponse (Some ''a.webm'') noData, toeflWorld),
       (OpNextTask, toeflWorld),
       (OpSubmitResponse (Some ''b.webm'') noData, toeflWorld\<lparr>uploadAudioR := Failure ''timeout''\<rparr>),
       (OpNextTask, toeflWorld)] toeflStore)))) = 1
   \<and> currentTask (testState (snd (run
      [(OpSubmitResponse (Some ''a.webm'') noData, toeflWorld),
       (OpNextTask, toeflWorld),
       (OpSubmitResponse (Some ''b.webm'') noData, toeflWorld\<lparr>uploadAudioR := Failure ''timeout''\<rparr>),
       (OpNextTask, toeflWorld)] toeflStore))) = 3"
proof -
  let ?cs = "[(OpSubmitResponse (Some ''a.webm'') noData, toeflWorld),
              (OpNextTask, toeflWorld),
              (OpSubmitResponse (Some ''b.webm'') noData, toeflWorld\<lparr>uploadAudioR := Failure ''timeout''\<rparr>),
              (OpNextTask, toeflWorld)]"
  have t: "totalTasks (testState toeflStore) = 4"
    by (simp add: toeflStore_literal)
  have n: "nextTaskCalls ?cs = 2"
    by (simp add: nextTaskCalls_def)
  have r: "map succeeded (fst (run ?cs toeflStore)) = [True, True, False, True]"
    by (simp add: toeflStore_literal submitResponse_def nextTask_def startTest_def store_defs
        Let_def toeflWorld_def taskOr_def newRecording_def noData_def)
  have s: "submitSuccesses ?cs (fst (run ?cs toeflStore)) = 1"
    using r by (cases "fst (run ?cs toeflStore)") (auto simp: Cons_eq_map_conv)
  show ?thesis
    using recordings_and_task_index_count_calls
            [OF toeflStore_eq, of ?cs "fst (run ?cs toeflStore)" "snd (run ?cs toeflStore)"] t n s
    by simp
qed

text \<open>
  Claim C1 as stated fails in its last clause (a recording is appended only when both the
  audio upload and the task submission succeed): called without an audio file,
  \<^verbatim>\<open>submitResponse\<close> makes no upload request, only the task submission, and appends a
  recording whose audio id is undefined.
\<close>

theorem recording_appended_without_upload:
  "fst (submitResponse None noData toeflWorld toeflStore) = Inr (SubmitP None ''accepted'')
   \<and> apiCalls (snd (submitResponse None noData toeflWorld toeflStore)) =
       apiCalls toeflStore @ [ApiSubmitTOEFLResponse 1]
   \<and> recordings (testState toeflStore) = []
   \<and> map audioId (recordings (testState (snd (submitResponse None noData toeflWorld toeflStore)))) = [None]"
  by (simp add: toeflStore_literal submitResponse_def store_defs Let_def toeflWorld_def
      newRecording_def noData_def)

subsection \<open>Failures of the submission path\<close>

text \<open>
  Claim C7. A failed audio upload, a failed task submission and a failed score retrieval
  are each returned to the caller as the call's error; the requests of the failing call
  are made once each (the upload is not followed by a submission when it fails, and
  nothing is requested again); and whenever \<^verbatim>\<open>submitResponse\<close> or
  \<^verbatim>\<open>completeTest\<close> returns an error, the phase, the task index and the recordings are
  what they were before the call, and the store's error field holds the error.
\<close>

theorem submission_failures_returned_unretried:
  "(currentSession s \<noteq> None \<and> f \<noteq> None \<and> uploadAudioR w = Failure msg \<longrightarrow>
      fst (submitResponse f rd w s) = Inl (''Audio upload failed: '' @ msg)
      \<and> apiCalls (snd (submitResponse f rd w s)) = apiCalls s @ [ApiUploadAudio])
   \<and> (currentSession s \<noteq> None \<and> (f = None \<or> (\<exists>a. uploadAudioR w = Success a))
        \<and> submitResponseR w = Failure msg \<longrightarrow>
      fst (submitResponse f rd w s) = Inl msg
      \<and> apiCalls (snd (submitResponse f rd w s)) =
          apiCalls s @ (if f = None then [] else [ApiUploadAudio])
            @ [if ttype (testState s) = Some ''toefl''
               then ApiSubmitTOEFLResponse (currentTask (testState s))
               else ApiSubmitIELTSResponse (currentTask (testState s))])
   \<and> (currentSession s \<noteq> None \<and> getScoreR w = Failure msg \<longrightarrow>
      fst (completeTest w s) = Inl msg
      \<and> apiCalls (snd (completeTest w s)) =
          apiCalls s @ [if ttype (testState s) = Some ''toefl'' then ApiGetTOEFLScore
                        else ApiGetIELTSScore])
   \<and> (\<forall>e. fst (submitResponse f rd w s) = Inl e \<longrightarrow>
         phase (testState (snd (submitResponse f rd w s))) = phase (testState s)
         \<and> currentTask (testState (snd (submitResponse f rd w s))) = currentTask (testState s)
         \<and> recordings (testState (snd (submitResponse f rd w s))) = recordings (testState s)
         \<and> error (snd (submitResponse f rd w s)) = Some e)
   \<and> (\<forall>e. fst (completeTest w s) = Inl e \<longrightarrow>
         phase (testState (snd (completeTest w s))) = phase (testState s)
         \<and> currentTask (testState (snd (completeTest w s))) = currentTask (testState s)
         \<and> recordings (testState (snd (completeTest w s))) = recordings (testState s)
         \<and> error (snd (completeTest w s)) = Some e)"
proof -
  have 1: "currentSession s \<noteq> None \<and> f \<noteq> None \<and> uploadAudioR w = Failure msg \<longrightarrow>
      fst (submitResponse f rd w s) = Inl (''Audio upload failed: '' @ msg)
      \<and> apiCalls (snd (submitResponse f rd w s)) = apiCalls s @ [ApiUploadAudio]"
    by (auto simp: submitResponse_def store_defs Let_def)
  have 2: "currentSession s \<noteq> None \<and> (f = None \<or> (\<exists>a. uploadAudioR w = Success a))
        \<and> submitResponseR w = Failure msg \<longrightarrow>
      fst (submitResponse f rd w s) = Inl msg
      \<and> apiCalls (snd (submitResponse f rd w s)) =
          apiCalls s @ (if f = None then [] else [ApiUploadAudio])
            @ [if ttype (testState s) = Some ''toefl''
               then ApiSubmitTOEFLResponse (currentTask (testState s))
               else ApiSubmitIELTSResponse (currentTask (testState s))]"
    by (auto simp: submitResponse_def store_defs Let_def split: option.splits)
  have 3: "currentSession s \<noteq> None \<and> getScoreR w = Failure msg \<longrightarrow>
      fst (completeTest w s) = Inl msg
      \<and> apiCalls (snd (completeTest w s)) =
          apiCalls s @ [if ttype (testState s) = Some ''toefl'' then ApiGetTOEFLScore
                        else ApiGetIELTSScore]"
    by (auto simp: completeTest_def store_defs Let_def)
  have 4: "\<forall>e. fst (submitResponse f rd w s) = Inl e \<longrightarrow>
         phase (testState (snd (submitResponse f rd w s))) = phase (testState s)
         \<and> currentTask (testState (snd (submitResponse f rd w s))) = currentTask (testState s)
         \<and> recordings (testState (snd (submitResponse f rd w s))) = recordings (testState s)
         \<and> error (snd (submitResponse f rd w s)) = Some e"
    using submit_fail [of f rd w s] by (metis prod.collapse)
  have 5: "\<forall>e. fst (completeTest w s) = Inl e \<longrightarrow>
         phase (testState (snd (completeTest w s))) = phase (testState s)
         \<and> currentTask (testState (snd (completeTest w s))) = currentTask (testState s)
         \<and> recordings (testState (snd (completeTest w s))) = recordings (testState s)
         \<and> error (snd (completeTest w s)) = Some e"
    using complete_fail [of w s] by (metis prod.collapse)
  from 1 2 3 4 5 show ?thesis by (intro conjI)
qed

theorem submission_failures_witness:
  "fst (submitResponse (Some ''a.webm'') noData (toeflWorld\<lparr>uploadAudioR := Failure ''timeout''\<rparr>) responseStore)
     = Inl ''Audio upload failed: timeout''
   \<and> phase (testState (snd (submitResponse (Some ''a.webm'') noData
         (toeflWorld\<lparr>uploadAudioR := Failure ''timeout''\<rparr>) responseStore))) = Response
   \<and> fst (submitResponse (Some ''a.webm'') noData (toeflWorld\<lparr>submitResponseR := Failure ''rejected''\<rparr>) responseStore)
     = Inl ''rejected''
   \<and> phase (testState (snd (submitResponse (Some ''a.webm'') noData
         (toeflWorld\<lparr>submitResponseR := Failure ''rejected''\<rparr>) responseStore))) = Response
   \<and> fst (completeTest (toeflWorld\<lparr>getScoreR := Failure ''unavailable''\<rparr>) responseStore)
     = Inl ''unavailable''
   \<and> phase (testState (snd (completeTest (toeflWorld\<lparr>getScoreR := Failure ''unavailable''\<rparr>) responseStore)))
     = Response"
proof -
  have c: "currentSession responseStore \<noteq> None" "phase (testState responseStore) = Response"
    by (simp_all add: responseStore_def toeflStore_literal)
  have u: "\<exists>a. uploadAudioR (toeflWorld\<lparr>submitResponseR := Failure ''rejected''\<rparr>) = Success a"
    by (simp add: toeflWorld_def)
  show ?thesis
    using submission_failures_returned_unretried
            [where s = responseStore and f = "Some ''a.webm''" and rd = noData
               and w = "toeflWorld\<lparr>uploadAudioR := Failure ''timeout''\<rparr>" and msg = "''timeout''"]
          submission_failures_returned_unretried
            [where s = responseStore and f = "Some ''a.webm''" and rd = noData
               and w = "toeflWorld\<lparr>submitResponseR := Failure ''rejected''\<rparr>" and msg = "''rejected''"]
          submission_failures_returned_unretried
            [where s = responseStore and f = "Some ''a.webm''" and rd = noData
               and w = "toeflWorld\<lparr>getScoreR := Failure ''unavailable''\<rparr>" and msg = "''unavailable''"]
          c u
    by simp
qed

subsection \<open>When the test completes\<close>

text \<open>
  Claim C8, as the code has it. \<^verbatim>\<open>completeTest\<close> does not look at the task index:
  called in a session, it sets the phase to Completed exactly when the score retrieval
  succeeds. The index is checked by \<^verbatim>\<open>nextTask\<close>, which calls
  \<^verbatim>\<open>completeTest\<close> only when the current task is not below the total. So in every
  run that starts with a successful \<^verbatim>\<open>createSession\<close> the task index stays within
  the total, a \<^verbatim>\<open>nextTask\<close> call moves the phase to Completed only at the last task
  (and only with a score), and before the last task it leaves the phase at Preparation.
\<close>

theorem completion_guarded_by_nextTask:
  assumes "createSession tt m w0 s0 = (Inr sess, s)" and "run cs s = (rs, s')"
  shows "currentTask (testState s') \<le> totalTasks (testState s')
     \<and> (phase (testState s') \<noteq> Completed \<and> phase (testState (snd (nextTask w s'))) = Completed
          \<longrightarrow> currentTask (testState s') = totalTasks (testState s')
              \<and> (\<exists>sc. getScoreR w = Success sc))
     \<and> (currentTask (testState s') < totalTasks (testState s')
          \<longrightarrow> phase (testState (snd (nextTask w s'))) = Preparation)
     \<and> ((phase (testState (snd (completeTest w s'))) = Completed) =
          (phase (testState s') = Completed \<or> (\<exists>sc. getScoreR w = Success sc)))"
proof -
  note c = createSession_success [OF assms(1)]
  from c have cs: "currentSession s = Some sess" by simp
  note r = run_session [OF cs assms(2)]
  have 1: "currentTask (testState s') \<le> totalTasks (testState s')"
    using r c by auto
  have 4: "(phase (testState (snd (completeTest w s'))) = Completed) =
          (phase (testState s') = Completed \<or> (\<exists>sc. getScoreR w = Success sc))"
    using r by (simp add: completeTest_phase)
  have 3: "currentTask (testState s') < totalTasks (testState s')
          \<longrightarrow> phase (testState (snd (nextTask w s'))) = Preparation"
    by (simp add: nextTask_phase)
  have 2: "phase (testState s') \<noteq> Completed \<and> phase (testState (snd (nextTask w s'))) = Completed
          \<longrightarrow> currentTask (testState s') = totalTasks (testState s')
              \<and> (\<exists>sc. getScoreR w = Success sc)"
  proof (cases "currentTask (testState s') < totalTasks (testState s')")
    case True
    then show ?thesis using 3 by simp
  next
    case False
    then have "nextTask w s' = completeTest w s'"
      by (simp add: nextTask_def)
    then show ?thesis using 4 1 False by auto
  qed
  from 1 2 3 4 show ?thesis by (intro conjI)
qed

theorem completion_guarded_witness:
  "phase (testState (snd (run [(OpNextTask, toeflWorld), (OpNextTask, toeflWorld), (OpNextTask, toeflWorld)] toeflStore)))
     = Preparation
   \<and> phase (testState (snd (nextTask toeflWorld
        (snd (run [(OpNextTask, toeflWorld), (OpNextTask, toeflWorld), (OpNextTask, toeflWorld)] toeflStore)))))
     = Completed
   \<and> currentTask (testState (snd (run [(OpNextTask, toeflWorld), (OpNextTask, toeflWorld), (OpNextTask, toeflWorld)] toeflStore)))
     = totalTasks (testState (snd (run [(OpNextTask, toeflWorld), (OpNextTask, toeflWorld), (OpNextTask, toeflWorld)] toeflStore)))"
proof -
  let ?cs = "[(OpNextTask, toeflWorld), (OpNextTask, toeflWorld), (OpNextTask, toeflWorld)]"
  let ?s = "snd (run ?cs toeflStore)"
  have r: "run ?cs toeflStore = (fst (run ?cs toeflStore), ?s)"
    by simp
  have p: "phase (testState ?s) = Preparation"
    by (simp add: toeflStore_literal nextTask_def startTest_def completeTest_def store_defs
        Let_def toeflWorld_def taskOr_def)
  have q: "phase (testState (snd (nextTask toeflWorld ?s))) = Completed"
    by (simp add: toeflStore_literal nextTask_def startTest_def completeTest_def store_defs
        Let_def toeflWorld_def taskOr_def)
  show ?thesis
    using completion_guarded_by_nextTask [OF toeflStore_eq r, of toeflWorld] p q
    by simp
qed

text \<open>
  Claim C8 as stated fails for a direct call: at task 1 of 4, \<^verbatim>\<open>completeTest\<close> sets
  the phase to Completed when the score is returned.
\<close>

theorem completeTest_before_last_task:
  "currentTask (testState toeflStore) = 1 \<and> totalTasks (testState toeflStore) = 4
   \<and> phase (testState toeflStore) = Preparation
   \<and> phase (testState (snd (completeTest toeflWorld toeflStore))) = Completed"
  by (simp add: toeflStore_literal completeTest_def store_defs Let_def toeflWorld_def)

section \<open>Properties of the listener dispatch\<close>

lemma fold_perform_Nil [simp]: "fold perform [] d = d"
  by simp

lemma invoke_passive:
  "actions (tbl cb) = [] \<Longrightarrow>
     invoke tbl cb d =
       d\<lparr>called := called d @ [cb], caught := caught d @ (if throws (tbl cb) then [cb] else [])\<rparr>"
  by (simp add: invoke_def)

lemma forEach_prefix:
  assumes "\<forall>cb \<in> set (listeners d). actions (tbl cb) = []"
  shows "n \<le> length (listeners d) \<Longrightarrow>
     fold (\<lambda>k st. if k < length (listeners st) then invoke tbl (listeners st ! k) st else st) [0..<n] d =
       d\<lparr>called := called d @ take n (listeners d),
         caught := caught d @ filter (\<lambda>cb. throws (tbl cb)) (take n (listeners d))\<rparr>"
proof (induction n)
  case 0
  show ?case by simp
next
  case (Suc n)
  then have n: "n < length (listeners d)" by simp
  with assms have p: "actions (tbl (listeners d ! n)) = []" by simp
  from Suc n show ?case
    by (simp add: take_Suc_conv_app_nth invoke_passive p)
qed

lemma forEach_passive:
  assumes "\<forall>cb \<in> set (listeners d). actions (tbl cb) = []"
  shows "forEach tbl d =
           d\<lparr>called := called d @ listeners d,
             caught := caught d @ filter (\<lambda>cb. throws (tbl cb)) (listeners d)\<rparr>"
  using forEach_prefix [OF assms, of "length (listeners d)"] by (simp add: forEach_def)

text \<open>
  Exceptions are isolated. When no listener of the array subscribes or unsubscribes
  during the dispatch, \<^verbatim>\<open>emit\<close> and \<^verbatim>\<open>notifyListeners\<close> call every listener, in
  registration order, whichever of them throw; every exception is caught and logged, and
  the array is left as it was.
\<close>

theorem dispatch_isolates_exceptions:
  assumes "\<forall>cb \<in> set l. actions (tbl cb) = []"
  shows "(eventListeners s ev = Some l \<longrightarrow>
            emitCalled (emit tbl ev s) = emitCalled s @ l
            \<and> emitCaught (emit tbl ev s) = emitCaught s @ filter (\<lambda>cb. throws (tbl cb)) l
            \<and> eventListeners (emit tbl ev s) = eventListeners s)
     \<and> (listeners d = l \<longrightarrow>
            called (notifySessionListeners tbl d) = called d @ l
            \<and> caught (notifySessionListeners tbl d) = caught d @ filter (\<lambda>cb. throws (tbl cb)) l
            \<and> listeners (notifySessionListeners tbl d) = l)"
proof -
  have 1: "eventListeners s ev = Some l \<longrightarrow>
            emitCalled (emit tbl ev s) = emitCalled s @ l
            \<and> emitCaught (emit tbl ev s) = emitCaught s @ filter (\<lambda>cb. throws (tbl cb)) l
            \<and> eventListeners (emit tbl ev s) = eventListeners s"
  proof
    assume e: "eventListeners s ev = Some l"
    let ?d = "\<lparr>listeners = l, called = emitCalled s, caught = emitCaught s\<rparr>"
    have "\<forall>cb \<in> set (listeners ?d). actions (tbl cb) = []"
      using assms by simp
    from forEach_passive [OF this] e
    show "emitCalled (emit tbl ev s) = emitCalled s @ l
            \<and> emitCaught (emit tbl ev s) = emitCaught s @ filter (\<lambda>cb. throws (tbl cb)) l
            \<and> eventListeners (emit tbl ev s) = eventListeners s"
      by (auto simp: emit_def Let_def)
  qed
  have 2: "listeners d = l \<longrightarrow>
            called (notifySessionListeners tbl d) = called d @ l
            \<and> caught (notifySessionListeners tbl d) = caught d @ filter (\<lambda>cb. throws (tbl cb)) l
            \<and> listeners (notifySessionListeners tbl d) = l"
  proof
    assume "listeners d = l"
    with assms have "\<forall>cb \<in> set (listeners d). actions (tbl cb) = []"
      by simp
    from forEach_passive [OF this] \<open>listeners d = l\<close>
    show "called (notifySessionListeners tbl d) = called d @ l
            \<and> caught (notifySessionListeners tbl d) = caught d @ filter (\<lambda>cb. throws (tbl cb)) l
            \<and> listeners (notifySessionListeners tbl d) = l"
      by (simp add: notifySessionListeners_def)
  qed
  from 1 2 show ?thesis ..
qed

theorem dispatch_isolates_exceptions_witness:
  "emitCalled (emit handshakeTable ''error''
      \<lparr>eventListeners = [''error'' \<mapsto> [2, 1]], emitCalled = [], emitCaught = []\<rparr>) = [2, 1]
   \<and> emitCaught (emit handshakeTable ''error''
      \<lparr>eventListeners = [''error'' \<mapsto> [2, 1]], emitCalled = [], emitCaught = []\<rparr>) = [2]
   \<and> called (notifySessionListeners handshakeTable \<lparr>listeners = [2, 1], called = [], caught = []\<rparr>) = [2, 1]
   \<and> caught (notifySessionListeners handshakeTable \<lparr>listeners = [2, 1], called = [], caught = []\<rparr>) = [2]"
  using dispatch_isolates_exceptions
          [where l = "[2, 1]" and tbl = handshakeTable and ev = "''error''"
             and s = "\<lparr>eventListeners = [''error'' \<mapsto> [2, 1]], emitCalled = [], emitCaught = []\<rparr>"
             and d = "\<lparr>listeners = [2, 1], called = [], caught = []\<rparr>"]
  by (simp add: handshakeTable_def)

text \<open>
  Claim C10 at a listener that unsubscribes during the dispatch. The \<^verbatim>\<open>message\<close>
  listeners are callback 0, which removes itself as \<^verbatim>\<open>authListener\<close> does when the
  \<^verbatim>\<open>authenticated\<close> reply arrives, and callback 1, subscribed after it. Nothing
  throws. \<^verbatim>\<open>emit\<close> calls callback 0 only: the \<^verbatim>\<open>splice\<close> moves callback 1 to index
  0, and \<^verbatim>\<open>forEach\<close> goes on at index 1, which the array no longer has. Callback 1 is
  registered before and after the call and is not invoked. The session store's loop is the
  same.
\<close>

theorem emit_skips_listener_after_unsubscribe:
  "eventListeners handshakeListeners ''message'' = Some [0, 1]
   \<and> emitCalled (emit handshakeTable ''message'' handshakeListeners) = [0]
   \<and> emitCaught (emit handshakeTable ''message'' handshakeListeners) = []
   \<and> eventListeners (emit handshakeTable ''message'' handshakeListeners) ''message'' = Some [1]
   \<and> called (notifySessionListeners handshakeTable \<lparr>listeners = [0, 1], called = [], caught = []\<rparr>) = [0]
   \<and> listeners (notifySessionListeners handshakeTable \<lparr>listeners = [0, 1], called = [], caught = []\<rparr>) = [1]"
  by (simp add: handshakeListeners_def on_def emit_def notifySessionListeners_def forEach_def
      invoke_def handshakeTable_def upt_rec)

section \<open>Properties of the connection\<close>

lemmas ws_log_defs = fire_def logc_def

subsection \<open>What \<open>send\<close> does\<close>

lemma send_result:
  "fst (send m s) =
     (isConnected s \<and> (case theSocket s of None \<Rightarrow> False | Some (i, k) \<Rightarrow> readyState k \<noteq> CONNECTING))"
  by (simp add: send_def socketSend_def split: option.split prod.split ready_state.split)

lemma send_transmitted:
  "map transmitted (sockets (snd (send m s))) =
     (case theSocket s of
        None \<Rightarrow> map transmitted (sockets s)
      | Some (i, k) \<Rightarrow>
          if isConnected s \<and> readyState k = OPEN
          then (map transmitted (sockets s))[i := transmitted k @ [m]]
          else map transmitted (sockets s))"
  by (auto simp: send_def socketSend_def theSocket_def ws_log_defs map_update list_update_same_conv
      split: option.split prod.split ready_state.split if_splits)

lemma send_unconnected:
  "\<not> isConnected s \<or> socket s = None \<Longrightarrow>
     send m s = (False, logc (Warn ''Cannot send message - WebSocket not connected'') s)"
  by (auto simp: send_def theSocket_def)

lemma send_ignores_authentication:
  "send m (s\<lparr>isAuthenticated := b\<rparr>) = (fst (send m s), (snd (send m s))\<lparr>isAuthenticated := b\<rparr>)"
  by (simp add: send_def socketSend_def theSocket_def ws_log_defs
      split: option.split prod.split ready_state.split)

subsection \<open>What each operation leaves unchanged\<close>

lemma settle_frame:
  "reconnectAttempts (settle p out s) = reconnectAttempts s
   \<and> maxReconnectAttempts (settle p out s) = maxReconnectAttempts s
   \<and> reconnectDelay (settle p out s) = reconnectDelay s
   \<and> timers (settle p out s) = timers s
   \<and> sockets (settle p out s) = sockets s
   \<and> socket (settle p out s) = socket s
   \<and> isConnected (settle p out s) = isConnected s
   \<and> isAuthenticated (settle p out s) = isAuthenticated s
   \<and> messageListeners (settle p out s) = messageListeners s
   \<and> auths (settle p out s) = auths s
   \<and> sessionId (settle p out s) = sessionId s"
  by (simp add: settle_def ws_log_defs Let_def split: origin.split settlement.split)

lemma send_frame:
  "reconnectAttempts (snd (send m s)) = reconnectAttempts s
   \<and> maxReconnectAttempts (snd (send m s)) = maxReconnectAttempts s
   \<and> reconnectDelay (snd (send m s)) = reconnectDelay s
   \<and> timers (snd (send m s)) = timers s
   \<and> socket (snd (send m s)) = socket s
   \<and> isConnected (snd (send m s)) = isConnected s
   \<and> isAuthenticated (snd (send m s)) = isAuthenticated s
   \<and> messageListeners (snd (send m s)) = messageListeners s
   \<and> auths (snd (send m s)) = auths s
   \<and> promises (snd (send m s)) = promises s
   \<and> emitted (snd (send m s)) = emitted s
   \<and> sessionId (snd (send m s)) = sessionId s
   \<and> length (sockets (snd (send m s))) = length (sockets s)
   \<and> map readyState (sockets (snd (send m s))) = map readyState (sockets s)"
  by (auto simp: send_def socketSend_def theSocket_def ws_log_defs map_update list_update_same_conv
      split: option.split prod.split ready_state.split if_splits)

lemma authResolve_attempts:
  "reconnectAttempts (authResolve a s) = reconnectAttempts s
   \<and> maxReconnectAttempts (authResolve a s) = maxReconnectAttempts s
   \<and> reconnectDelay (authResolve a s) = reconnectDelay s"
  by (simp add: authResolve_def settle_frame startHeartbeat_def ws_log_defs)

lemma authReject_attempts:
  "reconnectAttempts (authReject a e s) = reconnectAttempts s
   \<and> maxReconnectAttempts (authReject a e s) = maxReconnectAttempts s
   \<and> reconnectDelay (authReject a e s) = reconnectDelay s"
  by (simp add: authReject_def settle_frame ws_log_defs)

lemma authListener_attempts:
  "reconnectAttempts (authListener a d s) = reconnectAttempts s
   \<and> maxReconnectAttempts (authListener a d s) = maxReconnectAttempts s
   \<and> reconnectDelay (authListener a d s) = reconnectDelay s"
  by (simp add: authListener_def authResolve_attempts authReject_attempts offMessage_def ws_log_defs)

lemma fold_invariant:
  "(\<And>k st. P st \<Longrightarrow> P (f k st)) \<Longrightarrow> P s \<Longrightarrow> P (fold f ks s)"
  by (induction ks arbitrary: s) simp_all

lemma emitMessage_attempts:
  "reconnectAttempts (emitMessage d s) = reconnectAttempts s
   \<and> maxReconnectAttempts (emitMessage d s) = maxReconnectAttempts s
   \<and> reconnectDelay (emitMessage d s) = reconnectDelay s"
  unfolding emitMessage_def
  by (rule fold_invariant) (simp_all add: authListener_attempts ws_log_defs)

lemma handleMessage_attempts:
  "reconnectAttempts (handleMessage fr s) = reconnectAttempts s
   \<and> maxReconnectAttempts (handleMessage fr s) = maxReconnectAttempts s
   \<and> reconnectDelay (handleMessage fr s) = reconnectDelay s"
  by (simp add: handleMessage_def emitMessage_attempts ws_log_defs split: frame.split)

lemma authenticate_attempts:
  "reconnectAttempts (authenticate tok p s) = reconnectAttempts s
   \<and> maxReconnectAttempts (authenticate tok p s) = maxReconnectAttempts s
   \<and> reconnectDelay (authenticate tok p s) = reconnectDelay s"
  by (simp add: authenticate_def Let_def authReject_attempts send_frame)

lemma connect_attempts:
  "reconnectAttempts (connect sid tok c org s) = reconnectAttempts s
   \<and> maxReconnectAttempts (connect sid tok c org s) = maxReconnectAttempts s
   \<and> reconnectDelay (connect sid tok c org s) = reconnectDelay s"
  by (simp add: connect_def Let_def settle_frame ws_log_defs)

lemma timerFires_attempts:
  "reconnectAttempts (timerFires t c s) = reconnectAttempts s
   \<and> maxReconnectAttempts (timerFires t c s) = maxReconnectAttempts s
   \<and> reconnectDelay (timerFires t c s) = reconnectDelay s"
  by (simp add: timerFires_def Let_def authReject_attempts connect_attempts offMessage_def
      split: timer_kind.split)

lemma stopHeartbeat_attempts:
  "reconnectAttempts (stopHeartbeat s) = reconnectAttempts s
   \<and> maxReconnectAttempts (stopHeartbeat s) = maxReconnectAttempts s
   \<and> reconnectDelay (stopHeartbeat s) = reconnectDelay s"
  by (simp add: stopHeartbeat_def split: option.split)

lemma disconnect_attempts:
  "reconnectAttempts (disconnect s) = reconnectAttempts s
   \<and> maxReconnectAttempts (disconnect s) = maxReconnectAttempts s
   \<and> reconnectDelay (disconnect s) = reconnectDelay s"
  by (simp add: disconnect_def Let_def stopHeartbeat_attempts split: option.split prod.split)

lemma onopen_attempts:
  "reconnectAttempts (onopen i s) = 0
   \<and> maxReconnectAttempts (onopen i s) = maxReconnectAttempts s
   \<and> reconnectDelay (onopen i s) = reconnectDelay s"
  by (simp add: onopen_def Let_def authenticate_attempts)

lemma onclose_attempts:
  "reconnectAttempts (onclose i wasClean s) =
     (if \<not> wasClean \<and> reconnectAttempts s < maxReconnectAttempts s
      then reconnectAttempts s + 1 else reconnectAttempts s)
   \<and> maxReconnectAttempts (onclose i wasClean s) = maxReconnectAttempts s
   \<and> reconnectDelay (onclose i wasClean s) = reconnectDelay s"
  by (simp add: onclose_def Let_def attemptReconnect_def stopHeartbeat_attempts ws_log_defs)

theorem t9:
  "reconnectAttempts (step e s) =
     (case e of
        Open i \<Rightarrow>
          if i < length (sockets s) \<and> readyState (sockets s ! i) = CONNECTING then 0
          else reconnectAttempts s
      | Close i wasClean \<Rightarrow>
          if i < length (sockets s) \<and> readyState (sockets s ! i) \<noteq> CLOSED \<and> \<not> wasClean
             \<and> reconnectAttempts s < maxReconnectAttempts s
          then reconnectAttempts s + 1 else reconnectAttempts s
      | _ \<Rightarrow> reconnectAttempts s)"
  by (cases e)
     (simp_all add: onopen_attempts onclose_attempts handleMessage_attempts timerFires_attempts
        connect_attempts disconnect_attempts send_frame settle_frame onerror_def heartbeatTick_def
        sendAudioChunk_def ws_log_defs)

lemma attemptReconnect_auth [simp]:
  "isAuthenticated (attemptReconnect tok s) = isAuthenticated s"
  by (simp add: attemptReconnect_def Let_def)

lemma authReject_auth [simp]:
  "isAuthenticated (authReject a e s) = isAuthenticated s"
  by (simp add: authReject_def settle_frame ws_log_defs)

lemma onopen_auth:
  "isAuthenticated (onopen i s) = isAuthenticated s"
  by (simp add: onopen_def authenticate_def Let_def send_frame)

lemma onclose_auth:
  "isAuthenticated (onclose i wasClean s) = False"
  by (simp add: onclose_def Let_def stopHeartbeat_def ws_log_defs split: option.split)

lemmas ws_eval =
  steps_def onopen_def onclose_def onerror_def timerFires_def connect_def disconnect_def
  authenticate_def attemptReconnect_def handleMessage_def emitMessage_def authListener_def
  authResolve_def authReject_def offMessage_def settle_def send_def socketSend_def theSocket_def
  startHeartbeat_def stopHeartbeat_def heartbeatTick_def sendAudioChunk_def chunkIdOr_def
  fire_def logc_def Let_def newConnection_def
  MAX_RECONNECT_ATTEMPTS_def RECONNECT_DELAY_def AUTH_TIMEOUT_def
  authenticatedReply_def authErrorReply_def pongReply_def

lemma openedConnection_literal:
  "openedConnection =
     \<lparr>socket = Some 0, sessionId = Some ''s1'', userId = None, isConnected = True,
      isAuthenticated = False, reconnectAttempts = 0, maxReconnectAttempts = 5,
      reconnectDelay = 1000, heartbeatInterval = None, messageListeners = [0],
      sockets = [\<lparr>authToken = ''token'', connectPromise = 0, readyState = OPEN,
                  transmitted = [Auth ''token'' (Some ''s1'')]\<rparr>],
      promises = [\<lparr>settled = Pending, awaitedBy = Caller\<rparr>],
      auths = [\<lparr>forConnect = 0, outcome = Pending\<rparr>],
      timers = [\<lparr>kind = AuthTimer 0, delay = 10000, pending = True\<rparr>],
      intervalCount = 0, liveIntervals = [], emitted = [], console = []\<rparr>"
  by (simp add: openedConnection_def ws_eval)

subsection \<open>Sending\<close>

text \<open>
  Claim C5, as the code has it. \<^verbatim>\<open>send\<close> looks at \<^verbatim>\<open>isConnected\<close> and at
  \<^verbatim>\<open>this.socket\<close>, not at \<^verbatim>\<open>isAuthenticated\<close>: it is the method that sends the
  \<^verbatim>\<open>auth\<close> message itself. It returns true exactly when the connection is marked
  connected and the socket's own \<^verbatim>\<open>send\<close> does not throw; the message is transmitted
  exactly when moreover that socket is open; when the connection is not marked connected
  or has no socket it returns false, logs a warning and changes nothing else; and its
  result and effect are the same whatever \<^verbatim>\<open>isAuthenticated\<close> is. The function is
  total: the exception the socket may throw is caught inside and turned into false.
\<close>

theorem send_gated_by_connection:
  "fst (send m s) =
     (isConnected s \<and> (case theSocket s of None \<Rightarrow> False | Some (i, k) \<Rightarrow> readyState k \<noteq> CONNECTING))
   \<and> map transmitted (sockets (snd (send m s))) =
       (case theSocket s of
          None \<Rightarrow> map transmitted (sockets s)
        | Some (i, k) \<Rightarrow>
            if isConnected s \<and> readyState k = OPEN
            then (map transmitted (sockets s))[i := transmitted k @ [m]]
            else map transmitted (sockets s))
   \<and> (\<not> isConnected s \<or> socket s = None \<longrightarrow>
        send m s = (False, logc (Warn ''Cannot send message - WebSocket not connected'') s))
   \<and> send m (s\<lparr>isAuthenticated := b\<rparr>) = (fst (send m s), (snd (send m s))\<lparr>isAuthenticated := b\<rparr>)"
  using send_result [of m s] send_transmitted [of m s] send_unconnected [of s m]
    send_ignores_authentication [where m = m and s = s and b = b]
  by blast

theorem send_gated_witness:
  "send (Ping 7) newConnection =
     (False, logc (Warn ''Cannot send message - WebSocket not connected'') newConnection)
   \<and> fst (send (Ping 7) openedConnection)
   \<and> map transmitted (sockets (snd (send (Ping 7) openedConnection))) =
       [[Auth ''token'' (Some ''s1''), Ping 7]]"
proof -
  have n: "\<not> isConnected newConnection"
    by (simp add: newConnection_def)
  have o: "isConnected openedConnection"
    "theSocket openedConnection =
       Some (0, \<lparr>authToken = ''token'', connectPromise = 0, readyState = OPEN,
                 transmitted = [Auth ''token'' (Some ''s1'')]\<rparr>)"
    "map transmitted (sockets openedConnection) = [[Auth ''token'' (Some ''s1'')]]"
    by (simp_all add: openedConnection_literal theSocket_def)
  show ?thesis
    using send_gated_by_connection [of "Ping 7" newConnection]
      send_gated_by_connection [of "Ping 7" openedConnection] n o
    by simp
qed

text \<open>
  Claim C5 as stated fails while the connection is connected and not yet authenticated:
  \<^verbatim>\<open>send\<close> transmits and returns true. This is the state in which the class sends its
  own \<^verbatim>\<open>auth\<close> message through \<^verbatim>\<open>send\<close>.
\<close>

theorem send_transmits_before_authentication:
  "isConnected openedConnection \<and> isAuthenticated openedConnection = False
   \<and> map transmitted (sockets openedConnection) = [[Auth ''token'' (Some ''s1'')]]
   \<and> fst (send (Other ''conversation_message'') openedConnection) = True
   \<and> map transmitted (sockets (snd (send (Other ''conversation_message'') openedConnection))) =
       [[Auth ''token'' (Some ''s1''), Other ''conversation_message'']]"
  by (simp add: openedConnection_literal send_def socketSend_def theSocket_def)

subsection \<open>The reconnection counter\<close>

text \<open>
  Claim C9, as the code has it. \<^verbatim>\<open>reconnectAttempts\<close> is set to 0 by \<^verbatim>\<open>onopen\<close>,
  that is when the transport opens and before the handshake; it is incremented when a
  socket closes uncleanly below the maximum; no other event changes it. In particular the
  event that makes the connection Authenticated leaves the counter as it is.
\<close>

theorem reconnectAttempts_reset_by_open:
  "reconnectAttempts (step e s) =
     (case e of
        Open i \<Rightarrow>
          if i < length (sockets s) \<and> readyState (sockets s ! i) = CONNECTING then 0
          else reconnectAttempts s
      | Close i wasClean \<Rightarrow>
          if i < length (sockets s) \<and> readyState (sockets s ! i) \<noteq> CLOSED \<and> \<not> wasClean
             \<and> reconnectAttempts s < maxReconnectAttempts s
          then reconnectAttempts s + 1 else reconnectAttempts s
      | _ \<Rightarrow> reconnectAttempts s)
   \<and> (\<not> isAuthenticated s \<and> isAuthenticated (step e s) \<longrightarrow>
        reconnectAttempts (step e s) = reconnectAttempts s)"
proof -
  have 1: "reconnectAttempts (step e s) =
     (case e of
        Open i \<Rightarrow>
          if i < length (sockets s) \<and> readyState (sockets s ! i) = CONNECTING then 0
          else reconnectAttempts s
      | Close i wasClean \<Rightarrow>
          if i < length (sockets s) \<and> readyState (sockets s ! i) \<noteq> CLOSED \<and> \<not> wasClean
             \<and> reconnectAttempts s < maxReconnectAttempts s
          then reconnectAttempts s + 1 else reconnectAttempts s
      | _ \<Rightarrow> reconnectAttempts s)"
    by (cases e)
       (simp_all add: onopen_attempts onclose_attempts handleMessage_attempts timerFires_attempts
          connect_attempts disconnect_attempts send_frame settle_frame onerror_def heartbeatTick_def
          sendAudioChunk_def ws_log_defs)
  have 2: "\<not> isAuthenticated s \<and> isAuthenticated (step e s) \<longrightarrow>
        reconnectAttempts (step e s) = reconnectAttempts s"
  proof (cases e)
    case (Open i)
    then show ?thesis by (simp add: onopen_auth)
  next
    case (Close i wasClean)
    then show ?thesis by (simp add: onclose_auth)
  qed (simp_all add: handleMessage_attempts timerFires_attempts connect_attempts
         disconnect_attempts send_frame settle_frame onerror_def heartbeatTick_def
         sendAudioChunk_def ws_log_defs)
  from 1 2 show ?thesis ..
qed

theorem reconnectAttempts_reset_witness:
  "isAuthenticated (steps [Connect (Some ''s1'') ''token'' False, Connect (Some ''s1'') ''token'' False,
       Open 0, Open 1, Close 1 False] newConnection) = False
   \<and> reconnectAttempts (steps [Connect (Some ''s1'') ''token'' False, Connect (Some ''s1'') ''token'' False,
       Open 0, Open 1, Close 1 False] newConnection) = 1
   \<and> isAuthenticated (step (Message 0 authenticatedReply)
       (steps [Connect (Some ''s1'') ''token'' False, Connect (Some ''s1'') ''token'' False,
         Open 0, Open 1, Close 1 False] newConnection))
   \<and> reconnectAttempts (step (Message 0 authenticatedReply)
       (steps [Connect (Some ''s1'') ''token'' False, Connect (Some ''s1'') ''token'' False,
         Open 0, Open 1, Close 1 False] newConnection)) = 1"
proof -
  let ?s = "steps [Connect (Some ''s1'') ''token'' False, Connect (Some ''s1'') ''token'' False,
       Open 0, Open 1, Close 1 False] newConnection"
  have a: "isAuthenticated ?s = False" "reconnectAttempts ?s = 1"
    by (simp_all add: ws_eval)
  have b: "isAuthenticated (step (Message 0 authenticatedReply) ?s)"
    by (simp add: ws_eval)
  show ?thesis
    using reconnectAttempts_reset_by_open [of "Message 0 authenticatedReply" ?s] a b
    by simp
qed

text \<open>
  Claim C9 as stated fails at the transport's open: after an unclean close the counter is
  1; the reconnection's socket opens and the counter is 0 again, while the connection is
  not authenticated (the handshake has only been sent).
\<close>

theorem reconnectAttempts_reset_before_handshake:
  "reconnectAttempts (steps [Connect (Some ''s1'') ''token'' False, Open 0,
       Message 0 authenticatedReply, Close 0 False, TimerFires 1 False] newConnection) = 1
   \<and> reconnectAttempts (step (Open 1) (steps [Connect (Some ''s1'') ''token'' False, Open 0,
       Message 0 authenticatedReply, Close 0 False, TimerFires 1 False] newConnection)) = 0
   \<and> isAuthenticated (step (Open 1) (steps [Connect (Some ''s1'') ''token'' False, Open 0,
       Message 0 authenticatedReply, Close 0 False, TimerFires 1 False] newConnection)) = False"
  by (simp add: ws_eval)

subsection \<open>The handshake times out\<close>

lemma authListener_other:
  "dtype d \<noteq> ''authenticated'' \<Longrightarrow> dtype d \<noteq> ''auth_error'' \<Longrightarrow> authListener a d s = s"
  by (simp add: authListener_def)

lemma emitMessage_other:
  assumes "dtype d \<noteq> ''authenticated''" "dtype d \<noteq> ''auth_error''"
  shows "emitMessage d s = fire ''message'' s"
  unfolding emitMessage_def
  by (rule fold_invariant [where P = "\<lambda>st. st = fire ''message'' s"])
     (simp_all add: authListener_other assms)

lemma handleMessage_noReply:
  assumes "noReply fr"
  shows "handleMessage fr s =
           s\<lparr>emitted := emitted (handleMessage fr s), console := console (handleMessage fr s)\<rparr>"
proof (cases fr)
  case Malformed
  then show ?thesis
    by (simp add: handleMessage_def ws_log_defs)
next
  case (Parsed d)
  with assms have n: "emitMessage d s = fire ''message'' s"
    by (simp add: noReply_def emitMessage_other)
  show ?thesis
    unfolding Parsed by (simp add: handleMessage_def n ws_log_defs)
qed

lemma messages_noReply:
  "\<forall>fr \<in> set frs. noReply fr \<Longrightarrow>
     steps (map (Message i) frs) s =
       s\<lparr>emitted := emitted (steps (map (Message i) frs) s),
         console := console (steps (map (Message i) frs) s)\<rparr>"
proof (induction frs arbitrary: s)
  case Nil
  show ?case by (simp add: steps_def)
next
  case (Cons fr frs)
  then have nr: "noReply fr" and rest: "\<forall>fr \<in> set frs. noReply fr"
    by simp_all
  let ?s1 = "step (Message i fr) s"
  have h: "?s1 = s\<lparr>emitted := emitted ?s1, console := console ?s1\<rparr>"
  proof (cases "i < length (sockets s) \<and> readyState (sockets s ! i) = OPEN")
    case True
    then have "?s1 = handleMessage fr s" by simp
    with handleMessage_noReply [OF nr, of s] show ?thesis by simp
  next
    case False
    then have "?s1 = s" by auto
    then show ?thesis by simp
  qed
  have st: "steps (map (Message i) (fr # frs)) s = steps (map (Message i) frs) ?s1"
    by (simp add: steps_def)
  let ?s2 = "steps (map (Message i) frs) ?s1"
  from Cons.IH [OF rest, of ?s1]
  have "?s2 = ?s1\<lparr>emitted := emitted ?s2, console := console ?s2\<rparr>" .
  also have "\<dots> = s\<lparr>emitted := emitted ?s2, console := console ?s2\<rparr>"
    by (subst h) simp
  finally show ?case
    unfolding st .
qed

lemma opened:
  "step (Open (length (sockets s))) (connect sid tok False Caller s) =
     s\<lparr>promises := promises s @ [\<lparr>settled = Pending, awaitedBy = Caller\<rparr>],
       sessionId := sid,
       sockets := sockets s @
         [\<lparr>authToken = tok, connectPromise = length (promises s), readyState = OPEN,
           transmitted = [Auth tok sid]\<rparr>],
       socket := Some (length (sockets s)),
       isConnected := True, reconnectAttempts := 0,
       auths := auths s @ [\<lparr>forConnect = length (promises s), outcome = Pending\<rparr>],
       messageListeners := messageListeners s @ [length (auths s)],
       timers := timers s @ [\<lparr>kind = AuthTimer (length (auths s)), delay = AUTH_TIMEOUT, pending = True\<rparr>]\<rparr>"
  by (simp add: connect_def onopen_def authenticate_def send_def socketSend_def theSocket_def Let_def)

lemma timed_out:
  assumes "\<not> isAuthenticated s"
  shows "timerFires (length (timers s)) c
     (s\<lparr>promises := promises s @ [\<lparr>settled = Pending, awaitedBy = Caller\<rparr>],
       sessionId := sid,
       sockets := sockets s @
         [\<lparr>authToken = tok, connectPromise = length (promises s), readyState = OPEN,
           transmitted = [Auth tok sid]\<rparr>],
       socket := Some (length (sockets s)),
       isConnected := True, reconnectAttempts := 0,
       auths := auths s @ [\<lparr>forConnect = length (promises s), outcome = Pending\<rparr>],
       messageListeners := messageListeners s @ [length (auths s)],
       timers := timers s @ [\<lparr>kind = AuthTimer (length (auths s)), delay = AUTH_TIMEOUT, pending = True\<rparr>],
       emitted := E, console := C\<rparr>) =
     s\<lparr>promises := promises s @ [\<lparr>settled = Rejected ''Authentication timeout'', awaitedBy = Caller\<rparr>],
       sessionId := sid,
       sockets := sockets s @
         [\<lparr>authToken = tok, connectPromise = length (promises s), readyState = OPEN,
           transmitted = [Auth tok sid]\<rparr>],
       socket := Some (length (sockets s)),
       isConnected := True, reconnectAttempts := 0,
       auths := auths s @ [\<lparr>forConnect = length (promises s), outcome = Rejected ''Authentication timeout''\<rparr>],
       messageListeners := remove1 (length (auths s)) (messageListeners s @ [length (auths s)]),
       timers := timers s @ [\<lparr>kind = AuthTimer (length (auths s)), delay = AUTH_TIMEOUT, pending = False\<rparr>],
       emitted := E, console := C @ [Err ''Authentication failed'']\<rparr>"
  using assms
  by (simp add: timerFires_def authReject_def offMessage_def settle_def ws_log_defs Let_def)

lemma steps_append: "steps (es @ es') s = steps es' (steps es s)"
  by (simp add: steps_def)

lemma steps_Cons: "steps (e # es) s = steps es (step e s)"
  by (simp add: steps_def)

lemma steps_Nil: "steps [] s = s"
  by (simp add: steps_def)

text \<open>
  Claim C3, as the code has it. From any state that is not authenticated, let
  \<^verbatim>\<open>connect\<close> be called, its transport open (which sends the \<^verbatim>\<open>auth\<close> message),
  any frames arrive on it that are not a reply to the handshake, and the 10 second timer
  of \<^verbatim>\<open>authenticate\<close> fire. Then the promise of that \<^verbatim>\<open>connect\<close> call is
  rejected with the authentication timeout; the only timer the sequence added is that
  authentication timer, so no reconnection is scheduled; and the connection is still
  marked connected and unauthenticated, with \<^verbatim>\<open>this.socket\<close> the new socket, open,
  the \<^verbatim>\<open>auth\<close> message transmitted on it.
\<close>

theorem handshake_timeout_rejects_connect:
  assumes "\<not> isAuthenticated s" and "\<forall>fr \<in> set frs. noReply fr"
  shows "map settled (drop (length (promises s))
           (promises (steps ([Connect sid tok False, Open (length (sockets s))]
              @ map (Message (length (sockets s))) frs
              @ [TimerFires (length (timers s)) c]) s))) = [Rejected ''Authentication timeout'']
     \<and> isConnected (steps ([Connect sid tok False, Open (length (sockets s))]
              @ map (Message (length (sockets s))) frs
              @ [TimerFires (length (timers s)) c]) s)
     \<and> \<not> isAuthenticated (steps ([Connect sid tok False, Open (length (sockets s))]
              @ map (Message (length (sockets s))) frs
              @ [TimerFires (length (timers s)) c]) s)
     \<and> socket (steps ([Connect sid tok False, Open (length (sockets s))]
              @ map (Message (length (sockets s))) frs
              @ [TimerFires (length (timers s)) c]) s) = Some (length (sockets s))
     \<and> drop (length (sockets s)) (sockets (steps ([Connect sid tok False, Open (length (sockets s))]
              @ map (Message (length (sockets s))) frs
              @ [TimerFires (length (timers s)) c]) s)) =
         [\<lparr>authToken = tok, connectPromise = length (promises s), readyState = OPEN,
           transmitted = [Auth tok sid]\<rparr>]
     \<and> drop (length (timers s)) (timers (steps ([Connect sid tok False, Open (length (sockets s))]
              @ map (Message (length (sockets s))) frs
              @ [TimerFires (length (timers s)) c]) s)) =
         [\<lparr>kind = AuthTimer (length (auths s)), delay = AUTH_TIMEOUT, pending = False\<rparr>]
     \<and> reconnectAttempts (steps ([Connect sid tok False, Open (length (sockets s))]
              @ map (Message (length (sockets s))) frs
              @ [TimerFires (length (timers s)) c]) s) = 0"
proof -
  let ?i = "length (sockets s)"
  let ?S2 = "steps [Connect sid tok False, Open ?i] s"
  let ?S3 = "steps (map (Message ?i) frs) ?S2"
  let ?S4 = "steps ([Connect sid tok False, Open ?i] @ map (Message ?i) frs @ [TimerFires (length (timers s)) c]) s"
  have 2: "?S2 = step (Open ?i) (connect sid tok False Caller s)"
    by (simp add: steps_def)
  have 3: "?S3 = ?S2\<lparr>emitted := emitted ?S3, console := console ?S3\<rparr>"
    by (rule messages_noReply [OF assms(2)])
  have 4: "?S4 = timerFires (length (timers s)) c ?S3"
    by (simp add: steps_append steps_Cons steps_Nil)
  have 5: "?S4 = timerFires (length (timers s)) c (?S2\<lparr>emitted := emitted ?S3, console := console ?S3\<rparr>)"
    using 3 4 by simp
  show ?thesis
    unfolding 5 unfolding 2 opened
    using assms(1) by (simp add: timed_out [OF assms(1)])
qed

theorem handshake_timeout_witness:
  "map settled (promises (steps [Connect (Some ''s1'') ''token'' False, Open 0,
       Message 0 pongReply, TimerFires 0 False] newConnection)) = [Rejected ''Authentication timeout'']
   \<and> isConnected (steps [Connect (Some ''s1'') ''token'' False, Open 0,
       Message 0 pongReply, TimerFires 0 False] newConnection)
   \<and> map readyState (sockets (steps [Connect (Some ''s1'') ''token'' False, Open 0,
       Message 0 pongReply, TimerFires 0 False] newConnection)) = [OPEN]
   \<and> map pending (timers (steps [Connect (Some ''s1'') ''token'' False, Open 0,
       Message 0 pongReply, TimerFires 0 False] newConnection)) = [False]"
proof -
  have n: "\<not> isAuthenticated newConnection" "\<forall>fr \<in> set [pongReply]. noReply fr"
    "length (sockets newConnection) = 0" "length (timers newConnection) = 0"
    "length (promises newConnection) = 0"
    by (simp_all add: newConnection_def noReply_def pongReply_def)
  from handshake_timeout_rejects_connect [OF n(1) n(2), of "Some ''s1''" "''token''" False]
  show ?thesis
    unfolding n by simp
qed

text \<open>
  Claim C3 as stated fails in its last part (the connection state is Disconnected
  afterwards): after the timeout \<^verbatim>\<open>connect\<close> is rejected with the timeout error, but
  nothing closes the socket or clears \<^verbatim>\<open>isConnected\<close>; the connection stays
  connected, unauthenticated, with its socket open.
\<close>

theorem connected_after_handshake_timeout:
  "map settled (promises (steps [Connect (Some ''s1'') ''token'' False, Open 0, TimerFires 0 False]
       newConnection)) = [Rejected ''Authentication timeout'']
   \<and> isConnected (steps [Connect (Some ''s1'') ''token'' False, Open 0, TimerFires 0 False]
       newConnection) = True
   \<and> isAuthenticated (steps [Connect (Some ''s1'') ''token'' False, Open 0, TimerFires 0 False]
       newConnection) = False
   \<and> socket (steps [Connect (Some ''s1'') ''token'' False, Open 0, TimerFires 0 False]
       newConnection) = Some 0
   \<and> map readyState (sockets (steps [Connect (Some ''s1'') ''token'' False, Open 0, TimerFires 0 False]
       newConnection)) = [OPEN]"
  by (simp add: ws_eval)

end
